theory Spec2Isabelle
  imports Main "HOL-Library.Sublist"
begin

section \<open>JavaScript strings\<close>

text \<open>
  A JavaScript string is a sequence of UTF-16 code units; the model keeps the code units
  below 256 as \<^typ>\<open>char\<close>, so \<^term>\<open>length\<close> is the \<^verbatim>\<open>.length\<close> of the source.
\<close>

definition isWhiteSpace :: "char \<Rightarrow> bool" where
  "isWhiteSpace c = (c \<in> set [CHR '' '', CHR 0x09, CHR 0x0A, CHR 0x0B, CHR 0x0C, CHR 0x0D, CHR 0xA0])"

text \<open>\<^verbatim>\<open>s.trim()\<close>\<close>

definition trim :: "string \<Rightarrow> string" where
  "trim s = rev (dropWhile isWhiteSpace (rev (dropWhile isWhiteSpace s)))"

text \<open>\<^verbatim>\<open>s.toLowerCase()\<close> on the code units below 256.\<close>

definition lowerChar :: "char \<Rightarrow> char" where
  "lowerChar c =
     (let n = (of_char c :: nat)
      in if (65 \<le> n \<and> n \<le> 90) \<or> (192 \<le> n \<and> n \<le> 222 \<and> n \<noteq> 215) then char_of (n + 32) else c)"

definition toLowerCase :: "string \<Rightarrow> string" where
  "toLowerCase s = map lowerChar s"

text \<open>\<^verbatim>\<open>s.startsWith(p)\<close> and \<^verbatim>\<open>s.includes(sub)\<close>\<close>

fun startsWith :: "string \<Rightarrow> string \<Rightarrow> bool" where
  "startsWith s [] = True"
| "startsWith [] (p # ps) = False"
| "startsWith (c # cs) (p # ps) = (c = p \<and> startsWith cs ps)"

fun strIncludes :: "string \<Rightarrow> string \<Rightarrow> bool" where
  "strIncludes [] sub = (sub = [])"
| "strIncludes (c # cs) sub = (startsWith (c # cs) sub \<or> strIncludes cs sub)"

text \<open>\<^verbatim>\<open>s.split(d)\<close> for a one-character separator: the empty string gives one empty part.\<close>

fun splitOn :: "char \<Rightarrow> string \<Rightarrow> string list" where
  "splitOn d [] = [[]]"
| "splitOn d (c # cs) =
     (if c = d then [] # splitOn d cs
      else (case splitOn d cs of [] \<Rightarrow> [[c]] | p # ps \<Rightarrow> (c # p) # ps))"

text \<open>Decimal rendering of a non-negative integer, as a template literal prints it.\<close>

definition digitChar :: "nat \<Rightarrow> char" where
  "digitChar d = char_of (48 + d)"

function showNat :: "nat \<Rightarrow> string" where
  "showNat n = (if n < 10 then [digitChar n] else showNat (n div 10) @ [digitChar (n mod 10)])"
  by pat_completeness auto
termination
  by (relation "measure id") auto

text \<open>
  \<^verbatim>\<open>parseInt(s, 10)\<close>: leading white space is skipped, one sign is accepted, the longest
  run of decimal digits is read; \<^term>\<open>None\<close> is NaN (no digit at all).
\<close>

definition isDigit :: "char \<Rightarrow> bool" where
  "isDigit c = (48 \<le> (of_char c :: nat) \<and> (of_char c :: nat) \<le> 57)"

definition digitsValue :: "string \<Rightarrow> int" where
  "digitsValue ds = foldl (\<lambda>acc c. 10 * acc + (int (of_char c) - 48)) 0 ds"

definition parseInt :: "string \<Rightarrow> int option" where
  "parseInt s =
     (let t = dropWhile isWhiteSpace s;
          neg = (t \<noteq> [] \<and> hd t = CHR ''-'');
          u = (if t \<noteq> [] \<and> (hd t = CHR ''-'' \<or> hd t = CHR ''+'') then tl t else t);
          ds = takeWhile isDigit u
      in if ds = [] then None
         else Some (if neg then - digitsValue ds else digitsValue ds))"

subsection \<open>Replacement with a global literal pattern\<close>

text \<open>
  \<^verbatim>\<open>GetSubstitution\<close> of the language for a pattern without capture groups: in the
  replacement text \<^verbatim>\<open>$$\<close> is a dollar sign, \<^verbatim>\<open>$&\<close> the matched text,
  \<^verbatim>\<open>$`\<close> the text before the match and \<^verbatim>\<open>$'\<close> the text after it; every other
  character, a dollar sign before a digit included, stands for itself.
\<close>

fun getSubstitution :: "string \<Rightarrow> string \<Rightarrow> string \<Rightarrow> string \<Rightarrow> string" where
  "getSubstitution matched preceding following [] = []"
| "getSubstitution matched preceding following [c] = [c]"
| "getSubstitution matched preceding following (c # d # r) =
     (if c = CHR ''$'' \<and> d = CHR ''$'' then CHR ''$'' # getSubstitution matched preceding following r
      else if c = CHR ''$'' \<and> d = CHR ''&'' then matched @ getSubstitution matched preceding following r
      else if c = CHR ''$'' \<and> d = CHR 0x60 then preceding @ getSubstitution matched preceding following r
      else if c = CHR ''$'' \<and> d = CHR 0x27 then following @ getSubstitution matched preceding following r
      else c # getSubstitution matched preceding following (d # r))"

text \<open>
  \<^verbatim>\<open>s.replace(new RegExp(escaped p, 'g'), v)\<close> where the pattern matches the literal text
  \<open>p\<close>: the matches are found from left to right and do not overlap. The third argument
  is the part of the subject already scanned.
\<close>

function replaceAll :: "string \<Rightarrow> string \<Rightarrow> string \<Rightarrow> string \<Rightarrow> string" where
  "replaceAll p v preceding [] = []"
| "replaceAll p v preceding (c # cs) =
     (if p \<noteq> [] \<and> startsWith (c # cs) p
      then getSubstitution p preceding (drop (length p) (c # cs)) v
             @ replaceAll p v (preceding @ p) (drop (length p) (c # cs))
      else c # replaceAll p v (preceding @ [c]) cs)"
  by pat_completeness auto
termination
  by (relation "measure (\<lambda>(p, v, preceding, s). length s)") (auto simp: Suc_le_eq)

section \<open>GitManager: the commit message template\<close>

datatype FileChangeType = Code | Config | Documentation | Test | Asset | Dependency | Mixed

fun changeTypeName :: "FileChangeType \<Rightarrow> string" where
  "changeTypeName Code = ''code''"
| "changeTypeName Config = ''config''"
| "changeTypeName Documentation = ''documentation''"
| "changeTypeName Test = ''test''"
| "changeTypeName Asset = ''asset''"
| "changeTypeName Dependency = ''dependency''"
| "changeTypeName Mixed = ''mixed''"

record FileAnalysis =
  changeType :: FileChangeType
  analysedFiles :: "string list"
  summary :: string

text \<open>
  The six texts that \<^verbatim>\<open>applyMessageTemplate\<close> derives from \<^verbatim>\<open>new Date()\<close>:
  the ISO date, the time of day, the ISO timestamp, the weekday name, the month name and
  the year. They come from the clock and the locale, so the model takes them as given.
\<close>

record NowTexts =
  isoDate :: string
  timeOfDay :: string
  isoTimestamp :: string
  weekdayName :: string
  monthName :: string
  fullYear :: string

text \<open>The \<^verbatim>\<open>placeholders\<close> object, in the insertion order that \<^verbatim>\<open>Object.entries\<close> follows.\<close>

definition placeholders :: "NowTexts \<Rightarrow> FileAnalysis \<Rightarrow> string list \<Rightarrow> (string \<times> string) list" where
  "placeholders now analysis files =
     [(''{type}'', changeTypeName (changeType analysis)),
      (''{count}'', showNat (length files)),
      (''{files}'', showNat (length files)),
      (''{summary}'', summary analysis),
      (''{date}'', isoDate now),
      (''{time}'', timeOfDay now),
      (''{timestamp}'', isoTimestamp now),
      (''{day}'', weekdayName now),
      (''{month}'', monthName now),
      (''{year}'', fullYear now)]"

text \<open>The loop of \<^verbatim>\<open>applyMessageTemplate\<close> that replaces every placeholder in turn.\<close>

definition replacePlaceholders :: "(string \<times> string) list \<Rightarrow> string \<Rightarrow> string" where
  "replacePlaceholders phs template = foldl (\<lambda>message (placeholder, v). replaceAll placeholder v [] message) template phs"

definition maxLength :: nat where
  "maxLength = 72"

definition applyMessageTemplate :: "NowTexts \<Rightarrow> string \<Rightarrow> FileAnalysis \<Rightarrow> string list \<Rightarrow> string" where
  "applyMessageTemplate now template analysis files =
     (let message = replacePlaceholders (placeholders now analysis files) template
      in if length message > maxLength then take (maxLength - 3) message @ ''...'' else message)"

section \<open>Errors and log entries\<close>

text \<open>
  The error classes of \<^verbatim>\<open>types/index.ts\<close>: a message and, for the classes of the
  repository, the optional cause. \<^term>\<open>PlainError\<close> is an \<^verbatim>\<open>Error\<close> of the
  language or of a library, \<^term>\<open>TypeError\<close> the error of the language for a call of
  something that is not a function.
\<close>

datatype jsError =
    PlainError string
  | GitOperationError string "jsError option"
  | ConfigurationError string "jsError option"
  | SchedulerError string "jsError option"
  | TypeError string

fun errorMessage :: "jsError \<Rightarrow> string" where
  "errorMessage (PlainError m) = m"
| "errorMessage (GitOperationError m c) = m"
| "errorMessage (ConfigurationError m c) = m"
| "errorMessage (SchedulerError m c) = m"
| "errorMessage (TypeError m) = m"

fun errorCause :: "jsError \<Rightarrow> jsError option" where
  "errorCause (PlainError m) = None"
| "errorCause (GitOperationError m c) = c"
| "errorCause (ConfigurationError m c) = c"
| "errorCause (SchedulerError m c) = c"
| "errorCause (TypeError m) = None"

text \<open>\<^verbatim>\<open>error instanceof GitOperationError\<close>\<close>

fun isGitOperationError :: "jsError \<Rightarrow> bool" where
  "isGitOperationError (GitOperationError m c) = True"
| "isGitOperationError e = False"

text \<open>
  The class \<^verbatim>\<open>Logger\<close> of \<^verbatim>\<open>utils/logger.ts\<close> has the methods \<^verbatim>\<open>info\<close>,
  \<^verbatim>\<open>debug\<close> and \<^verbatim>\<open>error\<close>, for the three levels of \<^verbatim>\<open>LogLevel\<close>, and no
  method \<^verbatim>\<open>warn\<close>; the interface \<^verbatim>\<open>Logger\<close> of \<^verbatim>\<open>types/index.ts\<close> declares
  none either. \<^verbatim>\<open>defaultLogger\<close> and every result of \<^verbatim>\<open>createLogger\<close> is an instance
  of the class, so the expression \<^verbatim>\<open>warn\<close> of such a logger is \<^verbatim>\<open>undefined\<close> and a
  call of it throws a \<^verbatim>\<open>TypeError\<close>, whose message names the callee as the code writes
  it. The three methods the class has start the write of the entry and return.
\<close>

datatype logLevel = LogDebug | LogInfo | LogError

definition warn :: "string \<Rightarrow> jsError + unit" where
  "warn callee = Inl (TypeError (callee @ '' is not a function''))"

section \<open>JavaScript dates\<close>

text \<open>
  A \<^verbatim>\<open>Date\<close> holds a time value in milliseconds, or NaN (\<open>InvalidDate\<close>). The scheduler
  reads and writes dates through the local-time methods only, so the model keeps the time
  value as local time (a fixed offset from UTC cancels out; daylight-saving shifts are not
  modelled). The field functions are those of the language definition.
\<close>

datatype jsDate = InvalidDate | Time int

definition msPerDay :: int where
  "msPerDay = 86400000"

definition Day :: "int \<Rightarrow> int" where
  "Day t = t div msPerDay"

definition TimeWithinDay :: "int \<Rightarrow> int" where
  "TimeWithinDay t = t mod msPerDay"

definition HourFromTime :: "int \<Rightarrow> int" where
  "HourFromTime t = (t div 3600000) mod 24"

definition MinFromTime :: "int \<Rightarrow> int" where
  "MinFromTime t = (t div 60000) mod 60"

definition SecFromTime :: "int \<Rightarrow> int" where
  "SecFromTime t = (t div 1000) mod 60"

definition msFromTime :: "int \<Rightarrow> int" where
  "msFromTime t = t mod 1000"

definition MakeTime :: "int \<Rightarrow> int \<Rightarrow> int \<Rightarrow> int \<Rightarrow> int" where
  "MakeTime h m s ms = h * 3600000 + m * 60000 + s * 1000 + ms"

definition MakeDate :: "int \<Rightarrow> int \<Rightarrow> int" where
  "MakeDate day time = day * msPerDay + time"

text \<open>The setters; the argument is \<^term>\<open>None\<close> when the source passes NaN.\<close>

fun setSeconds :: "jsDate \<Rightarrow> int option \<Rightarrow> jsDate" where
  "setSeconds (Time t) (Some s) =
     Time (MakeDate (Day t) (MakeTime (HourFromTime t) (MinFromTime t) s (msFromTime t)))"
| "setSeconds d s = InvalidDate"

fun setMilliseconds :: "jsDate \<Rightarrow> int option \<Rightarrow> jsDate" where
  "setMilliseconds (Time t) (Some ms) =
     Time (MakeDate (Day t) (MakeTime (HourFromTime t) (MinFromTime t) (SecFromTime t) ms))"
| "setMilliseconds d ms = InvalidDate"

fun setMinutes :: "jsDate \<Rightarrow> int option \<Rightarrow> jsDate" where
  "setMinutes (Time t) (Some m) =
     Time (MakeDate (Day t) (MakeTime (HourFromTime t) m (SecFromTime t) (msFromTime t)))"
| "setMinutes d m = InvalidDate"

fun setHours :: "jsDate \<Rightarrow> int option \<Rightarrow> jsDate" where
  "setHours (Time t) (Some h) =
     Time (MakeDate (Day t) (MakeTime h (MinFromTime t) (SecFromTime t) (msFromTime t)))"
| "setHours d h = InvalidDate"

text \<open>
  \<^verbatim>\<open>d.setDate(d.getDate() + 1)\<close>: a day of the month past the end of the month is carried
  into the next month, so the result is the same time of day on the following calendar day.
\<close>

fun setDateToNextDay :: "jsDate \<Rightarrow> jsDate" where
  "setDateToNextDay (Time t) = Time (MakeDate (Day t + 1) (TimeWithinDay t))"
| "setDateToNextDay InvalidDate = InvalidDate"

text \<open>
  \<^verbatim>\<open>new Date(d.getFullYear(), d.getMonth(), d.getDate())\<close>: midnight, local time, of the
  calendar day of \<open>d\<close>.
\<close>

fun calendarDate :: "jsDate \<Rightarrow> jsDate" where
  "calendarDate (Time t) = Time (MakeDate (Day t) 0)"
| "calendarDate InvalidDate = InvalidDate"

text \<open>The relational operators on dates compare the time values; with NaN they are false.\<close>

fun dateGreater :: "jsDate \<Rightarrow> jsDate \<Rightarrow> bool" where
  "dateGreater (Time a) (Time b) = (a > b)"
| "dateGreater a b = False"

fun dateLessEq :: "jsDate \<Rightarrow> jsDate \<Rightarrow> bool" where
  "dateLessEq (Time a) (Time b) = (a \<le> b)"
| "dateLessEq a b = False"

text \<open>
  Writing a date down: \<^verbatim>\<open>new Date(year, monthIndex, day, hours, minutes, seconds)\<close> with the
  day number of the language definition (\<open>DayFromYear\<close>, months counted from 0).
\<close>

definition DayFromYear :: "int \<Rightarrow> int" where
  "DayFromYear y = 365 * (y - 1970) + (y - 1969) div 4 - (y - 1901) div 100 + (y - 1601) div 400"

definition InLeapYear :: "int \<Rightarrow> bool" where
  "InLeapYear y = (y mod 4 = 0 \<and> (y mod 100 \<noteq> 0 \<or> y mod 400 = 0))"

definition daysBeforeMonth :: "nat \<Rightarrow> bool \<Rightarrow> int" where
  "daysBeforeMonth m leap =
     [0, 31, 59, 90, 120, 151, 181, 212, 243, 273, 304, 334] ! m + (if leap \<and> 2 \<le> m then 1 else 0)"

definition newDate :: "int \<Rightarrow> nat \<Rightarrow> int \<Rightarrow> int \<Rightarrow> int \<Rightarrow> int \<Rightarrow> jsDate" where
  "newDate y monthIndex d h m s =
     (if monthIndex < 12
      then Time (MakeDate (DayFromYear y + daysBeforeMonth monthIndex (InLeapYear y) + d - 1) (MakeTime h m s 0))
      else InvalidDate)"

section \<open>Scheduler\<close>

text \<open>The in-memory \<^verbatim>\<open>SchedulerState\<close>; the ISO strings are kept as the dates they denote.\<close>

record SchedulerState =
  lastRun :: "jsDate option"
  nextRun :: "jsDate option"
  isActive :: bool
  stateCronExpression :: string
  missedExecutions :: "jsDate list"

text \<open>
  The state file after \<^verbatim>\<open>JSON.parse\<close>: any key may be absent. A file that cannot be
  read or parsed is \<open>Unreadable\<close> with the text of the error.
\<close>

record StoredState =
  storedLastRun :: "jsDate option"
  storedNextRun :: "jsDate option"
  storedIsActive :: "bool option"
  storedCronExpression :: "string option"
  storedMissedExecutions :: "jsDate list option"

datatype stateFile = Missing | Unreadable string | Stored StoredState

text \<open>A callback of type \<^verbatim>\<open>() => void\<close> either returns or throws.\<close>

datatype callback = Returns | Throws jsError

text \<open>
  The fields of the class, followed by the environment the scheduler acts on: the validator
  of the cron library, the state file, whether the n-th write to the disk succeeds, the clock
  (the n-th \<^verbatim>\<open>new Date()\<close> reads \<open>clock n\<close>), and what the run has done so far: the
  number of callback invocations and the log.
\<close>

record Scheduler =
  task :: "string option"
  callback :: "callback option"
  cronExpression :: string
  state :: SchedulerState
  cronValidate :: "string \<Rightarrow> bool"
  stateFile :: stateFile
  canWrite :: "nat \<Rightarrow> bool"
  writes :: nat
  clock :: "nat \<Rightarrow> int"
  ticks :: nat
  invocations :: nat
  logged :: "(logLevel \<times> string) list"

definition logMessage :: "logLevel \<Rightarrow> string \<Rightarrow> Scheduler \<Rightarrow> Scheduler" where
  "logMessage level text s = s\<lparr>logged := logged s @ [(level, text)]\<rparr>"

text \<open>\<^verbatim>\<open>new Date()\<close>\<close>

definition currentDate :: "Scheduler \<Rightarrow> jsDate \<times> Scheduler" where
  "currentDate s = (Time (clock s (ticks s)), s\<lparr>ticks := ticks s + 1\<rparr>)"

text \<open>The constructor.\<close>

definition newScheduler :: "(string \<Rightarrow> bool) \<Rightarrow> stateFile \<Rightarrow> (nat \<Rightarrow> bool) \<Rightarrow> (nat \<Rightarrow> int) \<Rightarrow> Scheduler" where
  "newScheduler validate file writable clk =
     \<lparr>task = None, callback = None, cronExpression = [],
      state = \<lparr>lastRun = None, nextRun = None, isActive = False, stateCronExpression = [], missedExecutions = []\<rparr>,
      cronValidate = validate, stateFile = file, canWrite = writable, writes = 0, clock = clk, ticks = 0,
      invocations = 0, logged = []\<rparr>"

definition getNextCronDate :: "string \<Rightarrow> jsDate \<Rightarrow> jsError + jsDate" where
  "getNextCronDate expr fromDate =
     (let parts = splitOn CHR '' '' expr
      in if length parts \<noteq> 5 then Inl (PlainError ''Invalid cron expression format'')
         else
           let minute = parts ! 0;
               hour = parts ! 1;
               next0 = setMilliseconds (setSeconds fromDate (Some 0)) (Some 0);
               next1 = (if minute \<noteq> ''*'' then setMinutes next0 (parseInt minute) else next0);
               next2 = (if hour \<noteq> ''*'' then setHours next1 (parseInt hour) else next1)
           in Inr (if dateLessEq next2 fromDate then setDateToNextDay next2 else next2))"

text \<open>
  \<^verbatim>\<open>calculateNextRun\<close>: \<^verbatim>\<open>toISOString\<close> throws on an invalid date; that error and the
  error of \<^verbatim>\<open>getNextCronDate\<close> are caught and logged.
\<close>

definition calculateNextRun :: "Scheduler \<Rightarrow> Scheduler" where
  "calculateNextRun s =
     (if cronExpression s = [] then s
      else
        let (now, s1) = currentDate s
        in case getNextCronDate (cronExpression s1) now of
             Inr (Time t) \<Rightarrow> s1\<lparr>state := (state s1)\<lparr>nextRun := Some (Time t)\<rparr>\<rparr>
           | Inr InvalidDate \<Rightarrow> logMessage LogError ''Failed to calculate next run time'' s1
           | Inl e \<Rightarrow> logMessage LogError ''Failed to calculate next run time'' s1)"

definition updateLastRun :: "Scheduler \<Rightarrow> Scheduler" where
  "updateLastRun s =
     (let (now, s1) = currentDate s
      in calculateNextRun (s1\<lparr>state := (state s1)\<lparr>lastRun := Some now\<rparr>\<rparr>))"

definition shouldHaveRunSince :: "Scheduler \<Rightarrow> jsDate \<Rightarrow> jsDate \<Rightarrow> bool" where
  "shouldHaveRunSince s lastRunAt currentTime =
     (if cronExpression s = [] then False
      else dateGreater (calendarDate currentTime) (calendarDate lastRunAt))"

text \<open>\<^verbatim>\<open>JSON.stringify(this.state)\<close>: a key whose value is undefined is left out.\<close>

definition snapshot :: "SchedulerState \<Rightarrow> StoredState" where
  "snapshot st =
     \<lparr>storedLastRun = lastRun st, storedNextRun = nextRun st, storedIsActive = Some (isActive st),
      storedCronExpression = Some (stateCronExpression st),
      storedMissedExecutions = Some (missedExecutions st)\<rparr>"

text \<open>\<^verbatim>\<open>saveState\<close>: a failure of the disk is logged, never thrown.\<close>

definition saveState :: "Scheduler \<Rightarrow> Scheduler" where
  "saveState s =
     (let s1 = s\<lparr>writes := writes s + 1\<rparr>
      in if canWrite s (writes s) then s1\<lparr>stateFile := Stored (snapshot (state s))\<rparr>
         else logMessage LogError ''Failed to save scheduler state'' s1)"

text \<open>
  \<^verbatim>\<open>loadState\<close>: the keys of the file override the state in memory, and
  \<^verbatim>\<open>missedExecutions\<close> is the list of the file or the empty list.
\<close>

definition loadState :: "Scheduler \<Rightarrow> Scheduler" where
  "loadState s =
     (case stateFile s of
        Stored f \<Rightarrow>
          s\<lparr>state :=
              \<lparr>lastRun = (case storedLastRun f of Some d \<Rightarrow> Some d | None \<Rightarrow> lastRun (state s)),
               nextRun = (case storedNextRun f of Some d \<Rightarrow> Some d | None \<Rightarrow> nextRun (state s)),
               isActive = (case storedIsActive f of Some b \<Rightarrow> b | None \<Rightarrow> isActive (state s)),
               stateCronExpression =
                 (case storedCronExpression f of Some e \<Rightarrow> e | None \<Rightarrow> stateCronExpression (state s)),
               missedExecutions = (case storedMissedExecutions f of Some xs \<Rightarrow> xs | None \<Rightarrow> [])\<rparr>\<rparr>
      | Missing \<Rightarrow> logMessage LogDebug ''No scheduler state file found, using defaults'' s
      | Unreadable e \<Rightarrow> logMessage LogError ''Failed to load scheduler state'' s)"

text \<open>
  Lines 297 to 303 of \<^verbatim>\<open>handleMissedExecutions\<close>: \<^verbatim>\<open>push\<close>, then
  \<^verbatim>\<open>slice(-10)\<close> when more than ten entries are held.
\<close>

definition recordMissedExecution :: "jsDate \<Rightarrow> jsDate list \<Rightarrow> jsDate list" where
  "recordMissedExecution now xs =
     (let ys = xs @ [now]
      in if length ys > 10 then drop (length ys - 10) ys else ys)"

text \<open>
  The body of the outer \<^verbatim>\<open>try\<close> of \<^verbatim>\<open>handleMissedExecutions\<close>. The inner
  \<^verbatim>\<open>catch\<close> logs the error of the callback and throws it again.
\<close>

definition handleMissedExecutionsBody :: "Scheduler \<Rightarrow> (jsError + bool) \<times> Scheduler" where
  "handleMissedExecutionsBody s =
     (let s1 = loadState s
      in case (lastRun (state s1), callback s1) of
           (Some lastRunAt, Some cb) \<Rightarrow>
             let (now, s2) = currentDate s1
             in if shouldHaveRunSince s2 lastRunAt now then
                  let s3 = logMessage LogInfo ''Detected missed execution, executing now'' s2;
                      s4 = s3\<lparr>state := (state s3)\<lparr>missedExecutions :=
                              recordMissedExecution now (missedExecutions (state s3))\<rparr>\<rparr>;
                      s5 = s4\<lparr>invocations := invocations s4 + 1\<rparr>
                  in case cb of
                       Returns \<Rightarrow> (Inr True, saveState (updateLastRun s5))
                     | Throws e \<Rightarrow> (Inl e, logMessage LogError ''Failed to execute missed callback'' s5)
                else (Inr False, s2)
         | _ \<Rightarrow> (Inr False, s1))"

text \<open>The outer \<^verbatim>\<open>catch\<close> logs whatever the body throws and returns false.\<close>

definition handleMissedExecutions :: "Scheduler \<Rightarrow> (jsError + bool) \<times> Scheduler" where
  "handleMissedExecutions s =
     (case handleMissedExecutionsBody s of
        (Inl e, s1) \<Rightarrow> (Inr False, logMessage LogError ''Failed to handle missed executions'' s1)
      | (Inr b, s1) \<Rightarrow> (Inr b, s1))"

definition isRunning :: "Scheduler \<Rightarrow> bool" where
  "isRunning s = (task s \<noteq> None \<and> isActive (state s))"

text \<open>
  \<^verbatim>\<open>stop\<close>. The write of \<^verbatim>\<open>saveState\<close> is not awaited in \<^verbatim>\<open>stop\<close> and
  \<^verbatim>\<open>start\<close>; the model performs it at the call.
\<close>

definition stop :: "Scheduler \<Rightarrow> Scheduler" where
  "stop s =
     (if task s \<noteq> None
      then saveState (logMessage LogInfo ''Scheduler stopped''
             (s\<lparr>task := None, state := (state s)\<lparr>isActive := False\<rparr>\<rparr>))
      else s)"

definition schedule :: "string \<Rightarrow> callback \<Rightarrow> Scheduler \<Rightarrow> (jsError + unit) \<times> Scheduler" where
  "schedule expr cb s =
     (if \<not> cronValidate s expr then
        (let cause = SchedulerError (''Invalid cron expression: '' @ expr) None;
             text = ''Failed to schedule task: '' @ errorMessage cause
         in (Inl (SchedulerError text (Some cause)), logMessage LogError text s))
      else
        let s1 = stop s;
            s2 = s1\<lparr>callback := Some cb, cronExpression := expr, task := Some expr\<rparr>;
            s3 = s2\<lparr>state := (state s2)\<lparr>stateCronExpression := expr, isActive := False\<rparr>\<rparr>;
            s4 = calculateNextRun s3
        in (Inr (), logMessage LogInfo ''Scheduler configured'' s4))"

definition start :: "Scheduler \<Rightarrow> (jsError + unit) \<times> Scheduler" where
  "start s =
     (if task s = None then (Inl (SchedulerError ''No task scheduled. Call schedule() first.'' None), s)
      else if isRunning s then (Inr (), logMessage LogDebug ''Scheduler is already running'' s)
      else
        let s1 = calculateNextRun (s\<lparr>state := (state s)\<lparr>isActive := True\<rparr>\<rparr>)
        in (Inr (), saveState (logMessage LogInfo ''Scheduler started'' s1)))"

definition updateSchedule :: "string \<Rightarrow> Scheduler \<Rightarrow> (jsError + unit) \<times> Scheduler" where
  "updateSchedule expr s =
     (if expr = cronExpression s
      then (Inr (), logMessage LogDebug ''Cron expression unchanged, skipping update'' s)
      else
        let wasRunning = isRunning s
        in case callback s of
             None \<Rightarrow> (Inr (), s)
           | Some cb \<Rightarrow>
               (case schedule expr cb s of
                  (Inl e, s1) \<Rightarrow> (Inl e, s1)
                | (Inr u, s1) \<Rightarrow>
                    (if wasRunning
                     then (case start s1 of
                             (Inl e, s2) \<Rightarrow> (Inl e, s2)
                           | (Inr u2, s2) \<Rightarrow>
                               (Inr (), logMessage LogInfo ''Scheduler updated with new cron expression'' s2))
                     else (Inr (), logMessage LogInfo ''Scheduler updated with new cron expression'' s1))))"

section \<open>GitManager\<close>

datatype GitRepositoryState = Clean | Dirty | Merging | Rebasing | Detached | Conflict | Unknown

fun stateName :: "GitRepositoryState \<Rightarrow> string" where
  "stateName Clean = ''clean''"
| "stateName Dirty = ''dirty''"
| "stateName Merging = ''merging''"
| "stateName Rebasing = ''rebasing''"
| "stateName Detached = ''detached''"
| "stateName Conflict = ''conflict''"
| "stateName Unknown = ''unknown''"

text \<open>
  The logger of \<^verbatim>\<open>GitManager\<close> is \<^verbatim>\<open>defaultLogger\<close>. Its calls of \<^verbatim>\<open>info\<close>,
  \<^verbatim>\<open>debug\<close> and \<^verbatim>\<open>error\<close> return and change nothing that the manager reads; the
  model leaves them out. Its calls of \<^verbatim>\<open>warn\<close> throw.

  What a run does to the outside world, in order: the command lines handed to
  \<^verbatim>\<open>execAsync\<close>, the paths probed with \<^verbatim>\<open>fs.access\<close> and the delays awaited with
  \<^verbatim>\<open>setTimeout\<close>. \<open>createCommitCalls\<close> counts the calls of \<^verbatim>\<open>createCommit\<close>.
\<close>

datatype effect = Exec string | Access string | Timeout int

record Machine =
  effects :: "effect list"
  createCommitCalls :: nat

text \<open>The delays awaited and the command lines executed, in order.\<close>

definition awaitedTimeouts :: "Machine \<Rightarrow> int list" where
  "awaitedTimeouts m = concat (map (\<lambda>x. case x of Timeout d \<Rightarrow> [d] | _ \<Rightarrow> []) (effects m))"

definition executedCommands :: "Machine \<Rightarrow> string list" where
  "executedCommands m = concat (map (\<lambda>x. case x of Exec c \<Rightarrow> [c] | _ \<Rightarrow> []) (effects m))"

text \<open>The command lines of the manager that only read the repository.\<close>

definition queryCommands :: "string list" where
  "queryCommands =
     [''git status --porcelain'', ''git rev-parse --git-dir'', ''git diff --check'',
      ''git symbolic-ref -q HEAD'', ''git branch --show-current'', ''git rev-parse --abbrev-ref HEAD'',
      ''git rev-parse HEAD'']"

text \<open>
  The \<^verbatim>\<open>GitManager\<close> with the environment it runs in. A child process either rejects with
  the message, the standard error and the standard output of the failure, or resolves with
  standard output and standard error; \<^verbatim>\<open>fs.access\<close> succeeds or not. Both may answer
  differently at every call: the second argument is the number of effects performed so
  far. The functions of the \<^verbatim>\<open>path\<close> module, the file analyser and the texts of the
  current date are taken as given.
\<close>

record GitManager =
  repositoryPath :: string
  execAsync :: "string \<Rightarrow> nat \<Rightarrow> (string \<times> string \<times> string) + (string \<times> string)"
  fsAccess :: "string \<Rightarrow> nat \<Rightarrow> bool"
  pathIsAbsolute :: "string \<Rightarrow> bool"
  pathResolve :: "string \<Rightarrow> string \<Rightarrow> string"
  pathJoin :: "string \<Rightarrow> string \<Rightarrow> string"
  analyzeFiles :: "string list \<Rightarrow> FileAnalysis"
  nowTexts :: NowTexts

definition newline :: string where
  "newline = [CHR 0x0A]"

definition executeGitCommand :: "GitManager \<Rightarrow> string \<Rightarrow> Machine \<Rightarrow> (jsError + (string \<times> string)) \<times> Machine" where
  "executeGitCommand g command m =
     (let fullCommand = ''git '' @ command;
          m1 = m\<lparr>effects := effects m @ [Exec fullCommand]\<rparr>
      in case execAsync g fullCommand (length (effects m)) of
           Inr out \<Rightarrow> (Inr out, m1)
         | Inl (msg, stderr, stdout) \<Rightarrow>
             (Inl (PlainError (''Git command failed: '' @ (if msg = [] then ''Unknown error'' else msg)
                     @ newline @ ''stderr: '' @ stderr @ newline @ ''stdout: '' @ stdout)), m1))"

definition access :: "GitManager \<Rightarrow> string \<Rightarrow> Machine \<Rightarrow> bool \<times> Machine" where
  "access g path m = (fsAccess g path (length (effects m)), m\<lparr>effects := effects m @ [Access path]\<rparr>)"

definition hasChanges :: "GitManager \<Rightarrow> Machine \<Rightarrow> (jsError + bool) \<times> Machine" where
  "hasChanges g m =
     (case executeGitCommand g ''status --porcelain'' m of
        (Inr (stdout, stderr), m1) \<Rightarrow> (Inr (length (trim stdout) > 0), m1)
      | (Inl e, m1) \<Rightarrow>
          (Inl (GitOperationError (''Failed to check for changes: '' @ errorMessage e) (Some e)), m1))"

definition getChangedFiles :: "GitManager \<Rightarrow> Machine \<Rightarrow> (jsError + string list) \<times> Machine" where
  "getChangedFiles g m =
     (case executeGitCommand g ''status --porcelain'' m of
        (Inr (stdout, stderr), m1) \<Rightarrow>
          (Inr (map (\<lambda>line. trim (drop 3 line))
                 (filter (\<lambda>line. length line > 0) (splitOn CHR 0x0A (trim stdout)))), m1)
      | (Inl e, m1) \<Rightarrow>
          (Inl (GitOperationError (''Failed to get changed files: '' @ errorMessage e) (Some e)), m1))"

definition getGitDirectory :: "GitManager \<Rightarrow> Machine \<Rightarrow> (jsError + string) \<times> Machine" where
  "getGitDirectory g m =
     (case executeGitCommand g ''rev-parse --git-dir'' m of
        (Inr (stdout, stderr), m1) \<Rightarrow>
          (let gitDir = trim stdout
           in (Inr (if \<not> pathIsAbsolute g gitDir then pathResolve g (repositoryPath g) gitDir else gitDir), m1))
      | (Inl e, m1) \<Rightarrow>
          (Inl (GitOperationError (''Failed to get Git directory: '' @ errorMessage e) (Some e)), m1))"

definition getLatestCommitHash :: "GitManager \<Rightarrow> Machine \<Rightarrow> (jsError + string) \<times> Machine" where
  "getLatestCommitHash g m =
     (case executeGitCommand g ''rev-parse HEAD'' m of
        (Inr (stdout, stderr), m1) \<Rightarrow> (Inr (trim stdout), m1)
      | (Inl e, m1) \<Rightarrow>
          (Inl (GitOperationError (''Failed to get latest commit hash: '' @ errorMessage e) (Some e)), m1))"

text \<open>
  The \<^verbatim>\<open>catch\<close> of \<^verbatim>\<open>getChangedFilesFromCommit\<close> calls \<^verbatim>\<open>defaultLogger.warn\<close>
  before it returns the empty list.
\<close>

definition getChangedFilesFromCommit ::
  "GitManager \<Rightarrow> string \<Rightarrow> Machine \<Rightarrow> (jsError + string list) \<times> Machine" where
  "getChangedFilesFromCommit g commitHash m =
     (case executeGitCommand g (''diff-tree --no-commit-id --name-only -r '' @ commitHash) m of
        (Inr (stdout, stderr), m1) \<Rightarrow>
          (Inr (filter (\<lambda>line. length line > 0) (splitOn CHR 0x0A (trim stdout))), m1)
      | (Inl e, m1) \<Rightarrow>
          (case warn ''defaultLogger.warn'' of
             Inl thrown \<Rightarrow> (Inl thrown, m1)
           | Inr u \<Rightarrow> (Inr [], m1)))"

text \<open>
  The body of the \<^verbatim>\<open>try\<close> of \<^verbatim>\<open>getRepositoryState\<close>: the checks in their order, each
  returning at once when it decides.
\<close>

definition getRepositoryStateBody :: "GitManager \<Rightarrow> Machine \<Rightarrow> (jsError + GitRepositoryState) \<times> Machine" where
  "getRepositoryStateBody g m =
     (case executeGitCommand g ''rev-parse --git-dir'' m of
        (Inl e, m1) \<Rightarrow> (Inl e, m1)
      | (Inr out1, m1) \<Rightarrow>
          let (conflict, m2) =
                (case executeGitCommand g ''diff --check'' m1 of
                   (Inl e, m2) \<Rightarrow> (strIncludes (errorMessage e) ''conflict'', m2)
                 | (Inr out2, m2) \<Rightarrow> (False, m2))
          in if conflict then (Inr Conflict, m2)
             else
               (case getGitDirectory g m2 of
                  (Inl e, m3) \<Rightarrow> (Inl e, m3)
                | (Inr gitDir, m3) \<Rightarrow>
                    let (mergeHead, m4) = access g (pathJoin g gitDir ''MERGE_HEAD'') m3
                    in if mergeHead then (Inr Merging, m4)
                       else
                         let (rebaseMerge, m5) = access g (pathJoin g gitDir ''rebase-merge'') m4
                         in if rebaseMerge then (Inr Rebasing, m5)
                            else
                              let (rebaseApply, m6) = access g (pathJoin g gitDir ''rebase-apply'') m5
                              in if rebaseApply then (Inr Rebasing, m6)
                                 else
                                   (case executeGitCommand g ''symbolic-ref -q HEAD'' m6 of
                                      (Inl e, m7) \<Rightarrow> (Inr Detached, m7)
                                    | (Inr (stdout, stderr), m7) \<Rightarrow>
                                        if trim stdout = [] then (Inr Detached, m7)
                                        else
                                          (case hasChanges g m7 of
                                             (Inl e, m8) \<Rightarrow> (Inl e, m8)
                                           | (Inr changes, m8) \<Rightarrow>
                                               (Inr (if changes then Dirty else Clean), m8)))))"

text \<open>The \<^verbatim>\<open>catch\<close> of \<^verbatim>\<open>getRepositoryState\<close> answers unknown.\<close>

definition getRepositoryState :: "GitManager \<Rightarrow> Machine \<Rightarrow> GitRepositoryState \<times> Machine" where
  "getRepositoryState g m =
     (case getRepositoryStateBody g m of
        (Inl e, m1) \<Rightarrow> (Unknown, m1)
      | (Inr st, m1) \<Rightarrow> (st, m1))"

definition isRepositoryClean :: "GitManager \<Rightarrow> Machine \<Rightarrow> bool \<times> Machine" where
  "isRepositoryClean g m =
     (let (st, m1) = getRepositoryState g m
      in (st = Clean \<or> st = Dirty, m1))"

text \<open>\<^verbatim>\<open>escapeCommitMessage\<close>: four replacements of single characters, then \<^verbatim>\<open>trim\<close>.\<close>

definition replaceChar :: "char \<Rightarrow> string \<Rightarrow> string \<Rightarrow> string" where
  "replaceChar c replacement s = concat (map (\<lambda>x. if x = c then replacement else [x]) s)"

definition escapeCommitMessage :: "string \<Rightarrow> string" where
  "escapeCommitMessage message =
     trim (replaceChar CHR 0x0A '' ''
       (replaceChar CHR ''$'' [CHR 0x5C, CHR ''$'']
         (replaceChar CHR 0x60 [CHR 0x5C, CHR 0x60]
           (replaceChar CHR 0x22 [CHR 0x5C, CHR 0x22] message))))"

text \<open>The body of the \<^verbatim>\<open>try\<close> of \<^verbatim>\<open>createCommit\<close>.\<close>

definition createCommitBody :: "GitManager \<Rightarrow> string \<Rightarrow> Machine \<Rightarrow> (jsError + string) \<times> Machine" where
  "createCommitBody g message m =
     (let (clean, m1) = isRepositoryClean g m
      in if \<not> clean then (Inl (GitOperationError ''Repository is not in a clean state for auto-commit'' None), m1)
         else
           (case hasChanges g m1 of
              (Inl e, m2) \<Rightarrow> (Inl e, m2)
            | (Inr changes, m2) \<Rightarrow>
                if \<not> changes then (Inl (GitOperationError ''No changes to commit'' None), m2)
                else if message = [] \<or> length (trim message) = 0
                then (Inl (GitOperationError ''Commit message cannot be empty'' None), m2)
                else
                  (case executeGitCommand g ''add .'' m2 of
                     (Inl e, m3) \<Rightarrow> (Inl e, m3)
                   | (Inr out3, m3) \<Rightarrow>
                       (case executeGitCommand g ''status --porcelain --cached'' m3 of
                          (Inl e, m4) \<Rightarrow> (Inl e, m4)
                        | (Inr (statusOutput, stderr), m4) \<Rightarrow>
                            if trim statusOutput = []
                            then (Inl (GitOperationError ''No files were staged for commit'' None), m4)
                            else
                              (case executeGitCommand g
                                      (''commit -m '' @ [CHR 0x22] @ escapeCommitMessage message @ [CHR 0x22]) m4 of
                                 (Inl e, m5) \<Rightarrow> (Inl e, m5)
                               | (Inr out5, m5) \<Rightarrow>
                                   (case getLatestCommitHash g m5 of
                                      (Inl e, m6) \<Rightarrow> (Inl e, m6)
                                    | (Inr commitHash, m6) \<Rightarrow>
                                        (case getChangedFilesFromCommit g commitHash m6 of
                                           (Inl e, m7) \<Rightarrow> (Inl e, m7)
                                         | (Inr changedFiles, m7) \<Rightarrow> (Inr commitHash, m7))))))))"

text \<open>
  The \<^verbatim>\<open>catch\<close> of \<^verbatim>\<open>createCommit\<close> throws a \<^verbatim>\<open>GitOperationError\<close> again as it
  is and wraps every other error.
\<close>

definition createCommit :: "GitManager \<Rightarrow> string \<Rightarrow> Machine \<Rightarrow> (jsError + string) \<times> Machine" where
  "createCommit g message m =
     (case createCommitBody g message (m\<lparr>createCommitCalls := createCommitCalls m + 1\<rparr>) of
        (Inr commitHash, m1) \<Rightarrow> (Inr commitHash, m1)
      | (Inl e, m1) \<Rightarrow>
          (Inl (if isGitOperationError e then e
                else GitOperationError (''Failed to create commit: '' @ errorMessage e) (Some e)), m1))"

text \<open>The test of \<^verbatim>\<open>createCommitWithRetry\<close> for the errors it does not retry.\<close>

definition dontRetry :: "jsError \<Rightarrow> bool" where
  "dontRetry e =
     (isGitOperationError e \<and>
      (let lowered = toLowerCase (errorMessage e)
       in strIncludes lowered ''no changes'' \<or> strIncludes lowered ''empty''
          \<or> strIncludes lowered ''not in a clean state''))"

definition showInt :: "int \<Rightarrow> string" where
  "showInt i = (if i < 0 then ''-'' @ showNat (nat (- i)) else showNat (nat i))"

text \<open>
  The loop of \<^verbatim>\<open>createCommitWithRetry\<close> from the attempt \<open>attempt\<close> on; the numbers of the
  source are taken as integers. An error that is let through before the last attempt is
  reported with \<^verbatim>\<open>defaultLogger.warn\<close>, then the delay is awaited; what the \<^verbatim>\<open>catch\<close>
  block throws leaves the function. After the loop the last error, if there is one, is
  wrapped.
\<close>

function retryLoop ::
  "GitManager \<Rightarrow> string \<Rightarrow> int \<Rightarrow> int \<Rightarrow> int \<Rightarrow> jsError option \<Rightarrow> Machine \<Rightarrow> (jsError + string) \<times> Machine" where
  "retryLoop g message maxRetries retryDelayMs attempt lastError m =
     (if attempt \<le> maxRetries then
        (case createCommit g message m of
           (Inr commitHash, m1) \<Rightarrow> (Inr commitHash, m1)
         | (Inl e, m1) \<Rightarrow>
             if dontRetry e then (Inl e, m1)
             else if attempt < maxRetries then
               (case warn ''defaultLogger.warn'' of
                  Inl thrown \<Rightarrow> (Inl thrown, m1)
                | Inr u \<Rightarrow>
                    retryLoop g message maxRetries retryDelayMs (attempt + 1) (Some e)
                      (m1\<lparr>effects := effects m1 @ [Timeout retryDelayMs]\<rparr>))
             else retryLoop g message maxRetries retryDelayMs (attempt + 1) (Some e) m1)
      else
        (Inl (GitOperationError
                (''Failed to create commit after '' @ showInt maxRetries @ '' attempts: ''
                   @ (case lastError of Some e \<Rightarrow> errorMessage e | None \<Rightarrow> ''undefined''))
                lastError), m))"
  by pat_completeness auto
termination
  by (relation "measure (\<lambda>(g, message, maxRetries, retryDelayMs, attempt, lastError, m). nat (maxRetries + 1 - attempt))") auto

declare retryLoop.simps [simp del]

definition createCommitWithRetry ::
  "GitManager \<Rightarrow> string \<Rightarrow> int \<Rightarrow> int \<Rightarrow> Machine \<Rightarrow> (jsError + string) \<times> Machine" where
  "createCommitWithRetry g message maxRetries retryDelayMs m = retryLoop g message maxRetries retryDelayMs 1 None m"

definition generateCommitMessage :: "GitManager \<Rightarrow> string list \<Rightarrow> string \<Rightarrow> string" where
  "generateCommitMessage g files customTemplate =
     (if length files = 0 then ''chore: daily auto-commit (no changes detected)''
      else
        let analysis = analyzeFiles g files;
            count = '' ('' @ showNat (length files) @ '' files)''
        in if customTemplate \<noteq> [] then applyMessageTemplate (nowTexts g) customTemplate analysis files
           else (case changeType analysis of
                   Code \<Rightarrow> ''feat: update application code'' @ count
                 | Config \<Rightarrow> ''config: update configuration files'' @ count
                 | Documentation \<Rightarrow> ''docs: update documentation'' @ count
                 | Test \<Rightarrow> ''test: update test files'' @ count
                 | Asset \<Rightarrow> ''assets: update static assets'' @ count
                 | Dependency \<Rightarrow> ''deps: update dependencies'' @ count
                 | Mixed \<Rightarrow> ''chore: daily auto-commit with multiple updates'' @ count))"

definition isGitRepository :: "GitManager \<Rightarrow> Machine \<Rightarrow> bool \<times> Machine" where
  "isGitRepository g m =
     (case executeGitCommand g ''rev-parse --git-dir'' m of
        (Inr out, m1) \<Rightarrow> (True, m1)
      | (Inl e, m1) \<Rightarrow> (False, m1))"

definition getCurrentBranch :: "GitManager \<Rightarrow> Machine \<Rightarrow> (jsError + string) \<times> Machine" where
  "getCurrentBranch g m =
     (case executeGitCommand g ''branch --show-current'' m of
        (Inr (stdout, stderr), m1) \<Rightarrow> (Inr (trim stdout), m1)
      | (Inl e, m1) \<Rightarrow>
          (case executeGitCommand g ''rev-parse --abbrev-ref HEAD'' m1 of
             (Inr (stdout, stderr), m2) \<Rightarrow> (Inr (trim stdout), m2)
           | (Inl e2, m2) \<Rightarrow>
               (Inl (GitOperationError (''Failed to get current branch: '' @ errorMessage e) (Some e)), m2)))"

record RepositoryInfo =
  isRepository :: bool
  currentBranch :: "string option"
  lastCommit :: "string option"
  infoHasChanges :: bool
  infoState :: GitRepositoryState

text \<open>
  \<^verbatim>\<open>getRepositoryInfo\<close> never throws. The four queries of its \<^verbatim>\<open>Promise.all\<close> are
  run one after the other, in the order of the array.
\<close>

definition getRepositoryInfo :: "GitManager \<Rightarrow> Machine \<Rightarrow> RepositoryInfo \<times> Machine" where
  "getRepositoryInfo g m =
     (let (isRepo, m1) = isGitRepository g m
      in if \<not> isRepo
         then (\<lparr>isRepository = False, currentBranch = None, lastCommit = None,
                infoHasChanges = False, infoState = Unknown\<rparr>, m1)
         else
           let (branch, m2) = (case getCurrentBranch g m1 of (Inr b, m2) \<Rightarrow> (Some b, m2) | (Inl e, m2) \<Rightarrow> (None, m2));
               (commit, m3) = (case getLatestCommitHash g m2 of (Inr h, m3) \<Rightarrow> (Some h, m3) | (Inl e, m3) \<Rightarrow> (None, m3));
               (changes, m4) = (case hasChanges g m3 of (Inr c, m4) \<Rightarrow> (c, m4) | (Inl e, m4) \<Rightarrow> (False, m4));
               (st, m5) = getRepositoryState g m4
           in (\<lparr>isRepository = True, currentBranch = branch, lastCommit = commit,
                infoHasChanges = changes, infoState = st\<rparr>, m5))"

section \<open>Configuration\<close>

record AutoCommitConfig =
  enabled :: bool
  commitTime :: string
  messageTemplate :: string
  excludePatterns :: "string list"
  logLevel :: string
  configRepositoryPath :: "string option"
  maxCommitMessageLength :: int
  retryAttempts :: int
  retryDelayMs :: int

text \<open>
  \<^verbatim>\<open>Partial<AutoCommitConfig>\<close>: \<^term>\<open>None\<close> is a key that is absent; a key that is present
  holds a value of its type.
\<close>

record PartialConfig =
  newEnabled :: "bool option"
  newCommitTime :: "string option"
  newMessageTemplate :: "string option"
  newExcludePatterns :: "string list option"
  newLogLevel :: "string option"
  newRepositoryPath :: "string option"
  newMaxCommitMessageLength :: "int option"
  newRetryAttempts :: "int option"
  newRetryDelayMs :: "int option"

text \<open>The spread \<^verbatim>\<open>{ ...this.config, ...newConfig }\<close>.\<close>

definition mergeConfig :: "AutoCommitConfig \<Rightarrow> PartialConfig \<Rightarrow> AutoCommitConfig" where
  "mergeConfig c n =
     \<lparr>enabled = (case newEnabled n of Some v \<Rightarrow> v | None \<Rightarrow> enabled c),
      commitTime = (case newCommitTime n of Some v \<Rightarrow> v | None \<Rightarrow> commitTime c),
      messageTemplate = (case newMessageTemplate n of Some v \<Rightarrow> v | None \<Rightarrow> messageTemplate c),
      excludePatterns = (case newExcludePatterns n of Some v \<Rightarrow> v | None \<Rightarrow> excludePatterns c),
      logLevel = (case newLogLevel n of Some v \<Rightarrow> v | None \<Rightarrow> logLevel c),
      configRepositoryPath = (case newRepositoryPath n of Some v \<Rightarrow> Some v | None \<Rightarrow> configRepositoryPath c),
      maxCommitMessageLength = (case newMaxCommitMessageLength n of Some v \<Rightarrow> v | None \<Rightarrow> maxCommitMessageLength c),
      retryAttempts = (case newRetryAttempts n of Some v \<Rightarrow> v | None \<Rightarrow> retryAttempts c),
      retryDelayMs = (case newRetryDelayMs n of Some v \<Rightarrow> v | None \<Rightarrow> retryDelayMs c)\<rparr>"

text \<open>
  \<^verbatim>\<open>CRON_PATTERN.test\<close>: five fields separated by single spaces, each a star or a number
  of the shape the pattern allows for it.
\<close>

definition charBetween :: "char \<Rightarrow> char \<Rightarrow> char \<Rightarrow> bool" where
  "charBetween lo hi c = ((of_char lo :: nat) \<le> of_char c \<and> (of_char c :: nat) \<le> of_char hi)"

definition twoDigitField :: "char \<Rightarrow> char \<Rightarrow> string \<Rightarrow> bool" where
  "twoDigitField lo hi f =
     (case f of
        [d] \<Rightarrow> isDigit d
      | [t, d] \<Rightarrow> charBetween lo hi t \<and> isDigit d
      | _ \<Rightarrow> False)"

definition cronPatternTest :: "string \<Rightarrow> bool" where
  "cronPatternTest s =
     (case splitOn CHR '' '' s of
        [minute, hour, dayOfMonth, month, dayOfWeek] \<Rightarrow>
          (minute = ''*'' \<or> twoDigitField CHR ''0'' CHR ''5'' minute)
          \<and> (hour = ''*'' \<or> twoDigitField CHR ''0'' CHR ''1'' hour
               \<or> (case hour of [t, d] \<Rightarrow> t = CHR ''2'' \<and> charBetween CHR ''0'' CHR ''3'' d | _ \<Rightarrow> False))
          \<and> (dayOfMonth = ''*'' \<or> twoDigitField CHR ''1'' CHR ''2'' dayOfMonth
               \<or> (case dayOfMonth of [t, d] \<Rightarrow> t = CHR ''3'' \<and> charBetween CHR ''0'' CHR ''1'' d | _ \<Rightarrow> False))
          \<and> (month = ''*''
               \<or> (case month of
                     [d] \<Rightarrow> isDigit d
                   | [t, d] \<Rightarrow> t = CHR ''1'' \<and> charBetween CHR ''0'' CHR ''2'' d
                   | _ \<Rightarrow> False))
          \<and> (dayOfWeek = ''*'' \<or> (case dayOfWeek of [d] \<Rightarrow> charBetween CHR ''0'' CHR ''6'' d | _ \<Rightarrow> False))
      | _ \<Rightarrow> False)"

text \<open>
  \<^verbatim>\<open>validateConfig\<close> of \<^verbatim>\<open>types/validation\<close>: the list of error texts. The checks of
  the dynamic type of a value are met by the types of the record.
\<close>

definition validateConfigErrors :: "AutoCommitConfig \<Rightarrow> string list" where
  "validateConfigErrors c =
     (if \<not> cronPatternTest (commitTime c) then [''commitTime must be a valid cron expression''] else [])
     @ (if length (messageTemplate c) < 10 then [''messageTemplate must be at least 10 characters long''] else [])
     @ (if length (messageTemplate c) > 200 then [''messageTemplate must be no more than 200 characters long''] else [])
     @ (if logLevel c \<notin> set [''debug'', ''info'', ''error''] then [''logLevel must be one of: debug, info, error''] else [])
     @ (if maxCommitMessageLength c < 20 then [''maxCommitMessageLength must be at least 20''] else [])
     @ (if maxCommitMessageLength c > 200 then [''maxCommitMessageLength must be no more than 200''] else [])
     @ (if retryAttempts c < 0 then [''retryAttempts must be at least 0''] else [])
     @ (if retryAttempts c > 10 then [''retryAttempts must be no more than 10''] else [])
     @ (if retryDelayMs c < 1000 then [''retryDelayMs must be at least 1000''] else [])"

text \<open>\<^verbatim>\<open>ConfigManager.validateConfig\<close>\<close>

definition validateConfig :: "AutoCommitConfig \<Rightarrow> bool" where
  "validateConfig c = (validateConfigErrors c = [])"

text \<open>\<^verbatim>\<open>errors.join(', ')\<close>\<close>

fun joinWith :: "string \<Rightarrow> string list \<Rightarrow> string" where
  "joinWith sep [] = []"
| "joinWith sep [x] = x"
| "joinWith sep (x # y # ys) = x @ sep @ joinWith sep (y # ys)"

section \<open>AutoCommitService\<close>

record CommitResult =
  success :: bool
  commitHash :: "string option"
  resultMessage :: string
  timestamp :: jsDate
  filesChanged :: nat
  resultError :: "string option"

text \<open>
  The fields of the service. \<open>configWriteError\<close> is the environment of the
  \<^verbatim>\<open>ConfigManager\<close>: the error text of the file system when the configuration file
  cannot be written. The logger of the service is the one its constructor is given, or
  \<^verbatim>\<open>defaultLogger\<close>; the program (\<^verbatim>\<open>ServiceManager\<close>) gives it a result of
  \<^verbatim>\<open>createLogger\<close>. The service is modelled with a logger of the class \<^verbatim>\<open>Logger\<close>:
  its calls of \<^verbatim>\<open>info\<close>, \<^verbatim>\<open>debug\<close> and \<^verbatim>\<open>error\<close> return and are left out, its call
  of \<^verbatim>\<open>warn\<close> throws.
\<close>

record AutoCommitService =
  config :: "AutoCommitConfig option"
  isInitialized :: bool
  isServiceRunning :: bool
  totalCommits :: nat
  lastCommitDate :: "jsDate option"
  lastError :: "string option"
  scheduler :: Scheduler
  gitManager :: GitManager
  configWriteError :: "string option"

text \<open>The body of the outer \<^verbatim>\<open>try\<close> of \<^verbatim>\<open>executeCommit\<close>.\<close>

definition executeCommitBody ::
  "AutoCommitService \<Rightarrow> jsDate \<Rightarrow> Machine \<Rightarrow> (jsError + CommitResult) \<times> AutoCommitService \<times> Machine" where
  "executeCommitBody svc startTime m =
     (case config svc of
        None \<Rightarrow> (Inl (ConfigurationError ''Configuration not loaded'' None), svc, m)
      | Some cfg \<Rightarrow>
          (case hasChanges (gitManager svc) m of
             (Inl e, m1) \<Rightarrow> (Inl e, svc, m1)
           | (Inr changes, m1) \<Rightarrow>
               if \<not> changes then
                 (Inr \<lparr>success = True, commitHash = None, resultMessage = ''No changes to commit'',
                       timestamp = startTime, filesChanged = 0, resultError = None\<rparr>, svc, m1)
               else
                 let (isClean, m2) = isRepositoryClean (gitManager svc) m1
                 in if \<not> isClean then
                      let (repoInfo, m3) = getRepositoryInfo (gitManager svc) m2;
                          warningMessage = ''Repository is not in a clean state (''
                            @ stateName (infoState repoInfo) @ ''), skipping auto-commit''
                      in (case warn ''this.logger.warn'' of
                            Inl thrown \<Rightarrow> (Inl thrown, svc, m3)
                          | Inr u \<Rightarrow>
                              (Inr \<lparr>success = False, commitHash = None, resultMessage = warningMessage,
                                    timestamp = startTime, filesChanged = 0,
                                    resultError = Some (''Repository state: '' @ stateName (infoState repoInfo))\<rparr>,
                               svc\<lparr>lastError := Some warningMessage\<rparr>, m3))
                    else
                      (case getChangedFiles (gitManager svc) m2 of
                         (Inl e, m3) \<Rightarrow> (Inl e, svc, m3)
                       | (Inr changedFiles, m3) \<Rightarrow>
                           let commitMessage =
                                 generateCommitMessage (gitManager svc) changedFiles (messageTemplate cfg)
                           in (case createCommitWithRetry (gitManager svc) commitMessage
                                       (retryAttempts cfg) (retryDelayMs cfg) m3 of
                                 (Inl e, m4) \<Rightarrow>
                                   (Inr \<lparr>success = False, commitHash = None, resultMessage = commitMessage,
                                         timestamp = startTime, filesChanged = length changedFiles,
                                         resultError = Some (errorMessage e)\<rparr>,
                                    svc\<lparr>lastError := Some (errorMessage e)\<rparr>, m4)
                               | (Inr hash, m4) \<Rightarrow>
                                   (Inr \<lparr>success = True, commitHash = Some hash, resultMessage = commitMessage,
                                         timestamp = startTime, filesChanged = length changedFiles,
                                         resultError = None\<rparr>,
                                    svc\<lparr>totalCommits := totalCommits svc + 1, lastCommitDate := Some startTime,
                                        lastError := None\<rparr>, m4)))))"

text \<open>The outer \<^verbatim>\<open>catch\<close> of \<^verbatim>\<open>executeCommit\<close> turns every error into a result.\<close>

definition executeCommit ::
  "AutoCommitService \<Rightarrow> jsDate \<Rightarrow> Machine \<Rightarrow> (jsError + CommitResult) \<times> AutoCommitService \<times> Machine" where
  "executeCommit svc startTime m =
     (case executeCommitBody svc startTime m of
        (Inr r, svc1, m1) \<Rightarrow> (Inr r, svc1, m1)
      | (Inl e, svc1, m1) \<Rightarrow>
          (Inr \<lparr>success = False, commitHash = None, resultMessage = ''Commit execution failed'',
                timestamp = startTime, filesChanged = 0, resultError = Some (errorMessage e)\<rparr>,
           svc1\<lparr>lastError := Some (errorMessage e)\<rparr>, m1))"

text \<open>
  \<^verbatim>\<open>stop\<close> and \<^verbatim>\<open>start\<close> of the service. The callback handed to the scheduler calls
  the asynchronous \<^verbatim>\<open>executeCommit\<close>, so the call itself returns.
\<close>

definition serviceStop :: "AutoCommitService \<Rightarrow> (jsError + unit) \<times> AutoCommitService" where
  "serviceStop svc =
     (if \<not> isServiceRunning svc then (Inr (), svc)
      else (Inr (), svc\<lparr>scheduler := stop (scheduler svc), isServiceRunning := False\<rparr>))"

definition serviceStartBody :: "AutoCommitService \<Rightarrow> (jsError + unit) \<times> AutoCommitService" where
  "serviceStartBody svc =
     (if \<not> isInitialized svc then (Inl (PlainError ''Service not initialized. Call initialize() first.''), svc)
      else
        (case config svc of
           None \<Rightarrow> (Inl (ConfigurationError ''Configuration not loaded'' None), svc)
         | Some cfg \<Rightarrow>
             if \<not> enabled cfg then (Inr (), svc)
             else if isServiceRunning svc then (Inr (), svc)
             else
               (case schedule (commitTime cfg) Returns (scheduler svc) of
                  (Inl e, sch1) \<Rightarrow> (Inl e, svc\<lparr>scheduler := sch1\<rparr>)
                | (Inr u, sch1) \<Rightarrow>
                    (case start sch1 of
                       (Inl e, sch2) \<Rightarrow> (Inl e, svc\<lparr>scheduler := sch2\<rparr>)
                     | (Inr u2, sch2) \<Rightarrow> (Inr (), svc\<lparr>scheduler := sch2, isServiceRunning := True\<rparr>)))))"

definition serviceStart :: "AutoCommitService \<Rightarrow> (jsError + unit) \<times> AutoCommitService" where
  "serviceStart svc =
     (case serviceStartBody svc of
        (Inl e, svc1) \<Rightarrow> (Inl e, svc1\<lparr>lastError := Some (errorMessage e)\<rparr>)
      | (Inr u, svc1) \<Rightarrow> (Inr u, svc1))"

text \<open>\<^verbatim>\<open>ConfigManager.saveConfig\<close>: the error it throws, if any.\<close>

definition saveConfig :: "AutoCommitService \<Rightarrow> AutoCommitConfig \<Rightarrow> jsError option" where
  "saveConfig svc c =
     (if validateConfigErrors c \<noteq> []
      then Some (ConfigurationError
                  (''Cannot save invalid configuration: '' @ joinWith '', '' (validateConfigErrors c)) None)
      else (case configWriteError svc of
              Some text \<Rightarrow>
                Some (ConfigurationError (''Failed to save configuration: '' @ text) (Some (PlainError text)))
            | None \<Rightarrow> None))"

text \<open>
  The test \<^verbatim>\<open>newConfig.commitTime && newConfig.commitTime !== this.config.commitTime\<close> of
  \<^verbatim>\<open>updateConfig\<close>, on the configuration the service holds when the test is made.
\<close>

definition commitTimeChanged :: "PartialConfig \<Rightarrow> AutoCommitService \<Rightarrow> bool" where
  "commitTimeChanged newConfig svc =
     (case (newCommitTime newConfig, config svc) of
        (Some t, Some c) \<Rightarrow> t \<noteq> [] \<and> t \<noteq> commitTime c
      | _ \<Rightarrow> False)"

text \<open>The body of the \<^verbatim>\<open>try\<close> of \<^verbatim>\<open>updateConfig\<close>.\<close>

definition updateConfigBody :: "PartialConfig \<Rightarrow> AutoCommitService \<Rightarrow> (jsError + unit) \<times> AutoCommitService" where
  "updateConfigBody newConfig svc =
     (case config svc of
        None \<Rightarrow> (Inl (ConfigurationError ''Configuration not loaded'' None), svc)
      | Some cfg \<Rightarrow>
          let updatedConfig = mergeConfig cfg newConfig
          in if \<not> validateConfig updatedConfig then (Inl (ConfigurationError ''Invalid configuration'' None), svc)
             else
               (case saveConfig svc updatedConfig of
                  Some e \<Rightarrow> (Inl e, svc)
                | None \<Rightarrow>
                    let wasRunning = isServiceRunning svc
                    in (case (if wasRunning then serviceStop svc else (Inr (), svc)) of
                          (Inl e, svc1) \<Rightarrow> (Inl e, svc1)
                        | (Inr u, svc1) \<Rightarrow>
                            let svc2 = svc1\<lparr>config := Some updatedConfig\<rparr>;
                                svc3 = (case newRepositoryPath newConfig of
                                          Some p \<Rightarrow>
                                            if p \<noteq> [] then svc2\<lparr>gitManager := (gitManager svc2)\<lparr>repositoryPath := p\<rparr>\<rparr>
                                            else svc2
                                        | None \<Rightarrow> svc2)
                            in (case (case newCommitTime newConfig of
                                        Some t \<Rightarrow>
                                          if commitTimeChanged newConfig svc3
                                          then (case updateSchedule t (scheduler svc3) of
                                                  (r, sch) \<Rightarrow> (r, svc3\<lparr>scheduler := sch\<rparr>))
                                          else (Inr (), svc3)
                                      | None \<Rightarrow> (Inr (), svc3)) of
                                  (Inl e, svc4) \<Rightarrow> (Inl e, svc4)
                                | (Inr u2, svc4) \<Rightarrow>
                                    if wasRunning \<and> enabled updatedConfig then serviceStart svc4
                                    else (Inr (), svc4)))))"

text \<open>The \<^verbatim>\<open>catch\<close> of \<^verbatim>\<open>updateConfig\<close> records the error and throws it again.\<close>

definition updateConfig :: "PartialConfig \<Rightarrow> AutoCommitService \<Rightarrow> (jsError + unit) \<times> AutoCommitService" where
  "updateConfig newConfig svc =
     (case updateConfigBody newConfig svc of
        (Inl e, svc1) \<Rightarrow> (Inl e, svc1\<lparr>lastError := Some (errorMessage e)\<rparr>)
      | (Inr u, svc1) \<Rightarrow> (Inr u, svc1))"

section \<open>Relations between machine states\<close>

text \<open>
  Two relations used to follow a run: the second machine has the same count of calls of
  \<^verbatim>\<open>createCommit\<close> and the same delays as the first; the second machine was reached from
  the first by read-only commands alone, without a call of \<^verbatim>\<open>createCommit\<close>.
\<close>

definition sameCallsAndTimeouts :: "Machine \<Rightarrow> Machine \<Rightarrow> bool" where
  "sameCallsAndTimeouts m m' = (createCommitCalls m' = createCommitCalls m \<and> awaitedTimeouts m' = awaitedTimeouts m)"

definition onlyQueries :: "Machine \<Rightarrow> Machine \<Rightarrow> bool" where
  "onlyQueries m m' =
     (createCommitCalls m' = createCommitCalls m
      \<and> set (executedCommands m') \<subseteq> set (executedCommands m) \<union> set queryCommands)"

section \<open>Concrete inputs\<close>

definition exampleNow :: NowTexts where
  "exampleNow = \<lparr>isoDate = ''2025-01-01'', timeOfDay = ''10:00:00'', isoTimestamp = ''2025-01-01T10:00:00.000Z'',
     weekdayName = ''Wednesday'', monthName = ''January'', fullYear = ''2025''\<rparr>"

definition exampleAnalysis :: FileAnalysis where
  "exampleAnalysis = \<lparr>changeType = Code, analysedFiles = [''a.ts'', ''b.ts''], summary = ''2 code''\<rparr>"

definition longTemplate :: string where
  "longTemplate = ''chore({type}): {ticket} daily auto-commit of {count} files on {day}, the first of {month} {year}''"

text \<open>
  A scheduler on which \<^verbatim>\<open>schedule('0 18 * * *', cb)\<close> has installed the callback, with its
  state file, on a disk that accepts every write and with a clock that starts at \<open>t0\<close>.
  The times used below: 1735754400000 is 2025-01-01 18:00, 1735891200000 is 2025-01-03 08:00 and
  1735894800000 is 2025-01-03 09:00.
\<close>

definition installedScheduler :: "stateFile \<Rightarrow> callback \<Rightarrow> int \<Rightarrow> Scheduler" where
  "installedScheduler file cb t0 =
     (newScheduler (\<lambda>expr. True) file (\<lambda>n. True) (\<lambda>n. t0 + int n))
       \<lparr>task := Some ''0 18 * * *'', callback := Some cb, cronExpression := ''0 18 * * *''\<rparr>"

definition storedWithLastRun :: "int \<Rightarrow> jsDate list \<Rightarrow> StoredState" where
  "storedWithLastRun t held =
     \<lparr>storedLastRun = Some (Time t), storedNextRun = None, storedIsActive = Some False,
      storedCronExpression = Some ''0 18 * * *'', storedMissedExecutions = Some held\<rparr>"

definition throwingScheduler :: Scheduler where
  "throwingScheduler =
     installedScheduler (Stored (storedWithLastRun 1735754400000 [])) (Throws (PlainError ''Execution failed'')) 1735894800000"

definition tenHeld :: "jsDate list" where
  "tenHeld = map (\<lambda>n. Time (1734000000000 + 86400000 * int n)) [0 ..< 10]"

text \<open>
  Git environments. \<open>repoAnswers\<close> answers the queries of the classification for a
  repository on a branch, with the given output of \<^verbatim>\<open>git status --porcelain\<close>, and hands
  every other command to \<open>other\<close>. \<open>lockedIndex\<close> fails every such command with a locked
  index.
\<close>

definition gitDirOutput :: string where
  "gitDirOutput = ''.git'' @ [CHR 0x0A]"

definition headOutput :: string where
  "headOutput = ''refs/heads/main'' @ [CHR 0x0A]"

definition oneModified :: string where
  "oneModified = '' M a.ts'' @ [CHR 0x0A]"

definition repoAnswers ::
  "string \<Rightarrow> (string \<Rightarrow> (string \<times> string \<times> string) + (string \<times> string)) \<Rightarrow> string \<Rightarrow> nat
     \<Rightarrow> (string \<times> string \<times> string) + (string \<times> string)" where
  "repoAnswers status other command n =
     (if command = ''git rev-parse --git-dir'' then Inr (gitDirOutput, [])
      else if command = ''git diff --check'' then Inr ([], [])
      else if command = ''git symbolic-ref -q HEAD'' then Inr (headOutput, [])
      else if command = ''git status --porcelain'' then Inr (status, [])
      else other command)"

definition gitWith ::
  "(string \<Rightarrow> nat \<Rightarrow> (string \<times> string \<times> string) + (string \<times> string)) \<Rightarrow> (string \<Rightarrow> nat \<Rightarrow> bool) \<Rightarrow> GitManager" where
  "gitWith exec probe =
     \<lparr>repositoryPath = ''/repo'', execAsync = exec, fsAccess = probe,
      pathIsAbsolute = (\<lambda>p. startsWith p ''/''), pathResolve = (\<lambda>a b. a @ ''/'' @ b),
      pathJoin = (\<lambda>a b. a @ ''/'' @ b),
      analyzeFiles = (\<lambda>files. \<lparr>changeType = Code, analysedFiles = files, summary = showNat (length files) @ '' code''\<rparr>),
      nowTexts = exampleNow\<rparr>"

definition lockedIndex :: "string \<Rightarrow> (string \<times> string \<times> string) + (string \<times> string)" where
  "lockedIndex command = Inl (''Command failed: '' @ command, ''fatal: Unable to create index.lock: File exists'', [])"

definition unchangedGit :: GitManager where
  "unchangedGit = gitWith (repoAnswers [] lockedIndex) (\<lambda>p n. False)"

definition lockedGit :: GitManager where
  "lockedGit = gitWith (repoAnswers oneModified lockedIndex) (\<lambda>p n. False)"

definition startMachine :: Machine where
  "startMachine = \<lparr>effects = [], createCommitCalls = 0\<rparr>"

definition lockedError :: jsError where
  "lockedError =
     GitOperationError
       (''Failed to create commit: Git command failed: Command failed: git add .'' @ newline
          @ ''stderr: fatal: Unable to create index.lock: File exists'' @ newline @ ''stdout: '')
       (Some (PlainError (''Git command failed: Command failed: git add .'' @ newline
          @ ''stderr: fatal: Unable to create index.lock: File exists'' @ newline @ ''stdout: '')))"

text \<open>
  A valid configuration, the change of the commit time to nine o'clock, and a service that is
  initialised: idle (never started), or running with the schedule of the configuration.
\<close>

definition exampleConfig :: AutoCommitConfig where
  "exampleConfig =
     \<lparr>enabled = True, commitTime = ''0 18 * * *'', messageTemplate = ''chore: daily'', excludePatterns = [],
      logLevel = ''info'', configRepositoryPath = None, maxCommitMessageLength = 72, retryAttempts = 3,
      retryDelayMs = 5000\<rparr>"

definition nineOClock :: PartialConfig where
  "nineOClock =
     \<lparr>newEnabled = None, newCommitTime = Some ''0 9 * * *'', newMessageTemplate = None, newExcludePatterns = None,
      newLogLevel = None, newRepositoryPath = None, newMaxCommitMessageLength = None, newRetryAttempts = None,
      newRetryDelayMs = None\<rparr>"

definition idleService :: "GitManager \<Rightarrow> AutoCommitService" where
  "idleService g =
     \<lparr>config = Some exampleConfig, isInitialized = True, isServiceRunning = False, totalCommits = 0,
      lastCommitDate = None, lastError = None,
      scheduler = newScheduler cronPatternTest Missing (\<lambda>n. True) (\<lambda>n. 1735894800000 + int n),
      gitManager = g, configWriteError = None\<rparr>"

definition runningService :: "GitManager \<Rightarrow> AutoCommitService" where
  "runningService g =
     (idleService g)
       \<lparr>isServiceRunning := True,
        scheduler :=
          (newScheduler cronPatternTest Missing (\<lambda>n. True) (\<lambda>n. 1735894800000 + int n))
            \<lparr>task := Some ''0 18 * * *'', callback := Some Returns, cronExpression := ''0 18 * * *'',
             state := \<lparr>lastRun = None, nextRun = Some (Time 1735927200000), isActive = True,
                       stateCronExpression = ''0 18 * * *'', missedExecutions = []\<rparr>\<rparr>\<rparr>"


definition mergingGit :: GitManager where
  "mergingGit = gitWith (repoAnswers oneModified lockedIndex) (\<lambda>p n. p = ''/repo/.git/MERGE_HEAD'')"


section \<open>The commit message template\<close>

lemma startsWith_prefix: "startsWith s p = prefix p s"
  by (induction s p rule: startsWith.induct) auto

lemma replaceAll_inside:
  assumes "CHR ''{'' \<notin> set nm"
  shows "replaceAll (CHR ''{'' # q) v preceding (nm @ CHR ''}'' # post)
           = nm @ CHR ''}'' # replaceAll (CHR ''{'' # q) v (preceding @ nm @ ''}'') post"
  using assms by (induction nm arbitrary: preceding) auto

lemma block_no_match:
  assumes "CHR ''}'' \<notin> set body" "CHR ''}'' \<notin> set nm" "nm \<noteq> body"
  shows "\<not> startsWith (nm @ CHR ''}'' # post) (body @ ''}'')"
  using assms
proof (induction nm arbitrary: body)
  case Nil
  then show ?case by (cases body) auto
next
  case (Cons n ns)
  then show ?case by (cases body) auto
qed

lemma straddle:
  assumes "pre \<noteq> []" "CHR ''{'' \<notin> set q" "startsWith (pre @ CHR ''{'' # rest) (CHR ''{'' # q)"
  shows "length (CHR ''{'' # q) \<le> length pre"
proof (rule ccontr)
  assume "\<not> ?thesis"
  then have lt: "length pre < length (CHR ''{'' # q)" by simp
  from assms(3) obtain zs where eq: "pre @ CHR ''{'' # rest = (CHR ''{'' # q) @ zs"
    by (auto simp: startsWith_prefix prefix_def)
  then obtain us where "(pre @ us = CHR ''{'' # q \<and> CHR ''{'' # rest = us @ zs) \<or> (pre = (CHR ''{'' # q) @ us \<and> us @ CHR ''{'' # rest = zs)"
    unfolding append_eq_append_conv2 by blast
  with lt have us: "pre @ us = CHR ''{'' # q" "CHR ''{'' # rest = us @ zs" by auto
  with lt have "us \<noteq> []" by auto
  with us(2) obtain us' where "us = CHR ''{'' # us'" by (cases us) auto
  with us(1) assms(1) have "CHR ''{'' \<in> set q" by (cases pre) auto
  with assms(2) show False by simp
qed

lemma replaceAll_keeps_block:
  assumes "CHR ''{'' \<notin> set body" "CHR ''}'' \<notin> set body"
    and "CHR ''{'' \<notin> set nm" "CHR ''}'' \<notin> set nm" "nm \<noteq> body"
  shows "\<exists>a b. replaceAll (CHR ''{'' # body @ ''}'') v preceding (pre @ CHR ''{'' # nm @ CHR ''}'' # post)
           = a @ CHR ''{'' # nm @ CHR ''}'' # b"
proof (induction "length pre" arbitrary: pre preceding rule: less_induct)
  case less
  let ?p = "CHR ''{'' # body @ ''}''"
  let ?U = "CHR ''{'' # nm @ CHR ''}'' # post"
  show ?case
  proof (cases pre)
    case Nil
    have "\<not> startsWith ?U ?p"
      using block_no_match [OF assms(2,4,5)] by simp
    then have "replaceAll ?p v preceding ?U = CHR ''{'' # replaceAll ?p v (preceding @ ''{'') (nm @ CHR ''}'' # post)"
      by simp
    also have "\<dots> = CHR ''{'' # nm @ CHR ''}'' # replaceAll ?p v ((preceding @ ''{'') @ nm @ ''}'') post"
      using replaceAll_inside [OF assms(3)] by simp
    finally have "replaceAll ?p v preceding ([] @ ?U) = [] @ CHR ''{'' # nm @ CHR ''}'' # replaceAll ?p v ((preceding @ ''{'') @ nm @ ''}'') post"
      by (simp del: replaceAll.simps)
    then show ?thesis unfolding Nil by blast
  next
    case (Cons c cs)
    show ?thesis
    proof (cases "startsWith (pre @ ?U) ?p")
      case True
      have q: "CHR ''{'' \<notin> set (body @ ''}'')" using assms(1) by simp
      have le: "length ?p \<le> length pre"
        using straddle [OF _ q, of pre "nm @ CHR ''}'' # post"] True Cons by simp
      then have d: "drop (length ?p) (pre @ ?U) = drop (length ?p) pre @ ?U" by simp
      have "length (drop (length ?p) pre) < length pre" using Cons by simp
      from less [OF this] obtain a b where
        "replaceAll ?p v (preceding @ ?p) (drop (length ?p) pre @ ?U) = a @ CHR ''{'' # nm @ CHR ''}'' # b"
        by blast
      moreover have "replaceAll ?p v preceding (pre @ ?U)
          = getSubstitution ?p preceding (drop (length ?p) (pre @ ?U)) v
              @ replaceAll ?p v (preceding @ ?p) (drop (length ?p) (pre @ ?U))"
        using True Cons by simp
      ultimately have "replaceAll ?p v preceding (pre @ ?U)
          = (getSubstitution ?p preceding (drop (length ?p) (pre @ ?U)) v @ a) @ CHR ''{'' # nm @ CHR ''}'' # b"
        using d by (simp del: replaceAll.simps)
      then show ?thesis by blast
    next
      case False
      have "length cs < length pre" using Cons by simp
      from less [OF this] obtain a b where
        "replaceAll ?p v (preceding @ [c]) (cs @ ?U) = a @ CHR ''{'' # nm @ CHR ''}'' # b"
        by blast
      moreover have "replaceAll ?p v preceding (pre @ ?U) = c # replaceAll ?p v (preceding @ [c]) (cs @ ?U)"
        using False Cons by auto
      ultimately have "replaceAll ?p v preceding (pre @ ?U) = (c # a) @ CHR ''{'' # nm @ CHR ''}'' # b"
        by (simp del: replaceAll.simps)
      then show ?thesis by blast
    qed
  qed
qed


lemma replacePlaceholders_keeps_block:
  assumes "\<forall>(p, v) \<in> set phs. \<exists>body. p = CHR ''{'' # body @ ''}'' \<and> CHR ''{'' \<notin> set body \<and> CHR ''}'' \<notin> set body \<and> body \<noteq> nm"
    and "CHR ''{'' \<notin> set nm" "CHR ''}'' \<notin> set nm"
  shows "\<exists>a b. replacePlaceholders phs (pre @ CHR ''{'' # nm @ CHR ''}'' # post) = a @ CHR ''{'' # nm @ CHR ''}'' # b"
  using assms(1)
proof (induction phs arbitrary: pre post)
  case Nil
  show ?case unfolding replacePlaceholders_def by auto
next
  case (Cons ph phs)
  obtain p v where ph: "ph = (p, v)" by (cases ph)
  with Cons.prems obtain body where b: "p = CHR ''{'' # body @ ''}''" "CHR ''{'' \<notin> set body" "CHR ''}'' \<notin> set body" "body \<noteq> nm"
    by auto
  from replaceAll_keeps_block [OF b(2,3) assms(2,3), of v "[]" pre post] b(4) obtain a c where
    ac: "replaceAll p v [] (pre @ CHR ''{'' # nm @ CHR ''}'' # post) = a @ CHR ''{'' # nm @ CHR ''}'' # c"
    unfolding b(1) by blast
  have "replacePlaceholders (ph # phs) (pre @ CHR ''{'' # nm @ CHR ''}'' # post)
        = replacePlaceholders phs (a @ CHR ''{'' # nm @ CHR ''}'' # c)"
    unfolding replacePlaceholders_def ph using ac by simp
  moreover from Cons.prems have "\<forall>(p, v) \<in> set phs. \<exists>body. p = CHR ''{'' # body @ ''}'' \<and> CHR ''{'' \<notin> set body \<and> CHR ''}'' \<notin> set body \<and> body \<noteq> nm"
    by simp
  from Cons.IH [OF this] obtain a' b' where "replacePlaceholders phs (a @ CHR ''{'' # nm @ CHR ''}'' # c) = a' @ CHR ''{'' # nm @ CHR ''}'' # b'"
    by blast
  ultimately show ?case by auto
qed

lemma placeholders_keys:
  assumes "nm \<notin> set [''type'', ''count'', ''files'', ''summary'', ''date'', ''time'', ''timestamp'', ''day'', ''month'', ''year'']"
  shows "\<forall>(p, v) \<in> set (placeholders now analysis files). \<exists>body. p = CHR ''{'' # body @ ''}'' \<and> CHR ''{'' \<notin> set body \<and> CHR ''}'' \<notin> set body \<and> body \<noteq> nm"
  using assms unfolding placeholders_def by auto


text \<open>
  Claim C9. For every template, analysis and file list, \<^verbatim>\<open>applyMessageTemplate\<close> returns a
  message (the function is total: nothing is raised). A placeholder \<open>{nm}\<close> of the template
  that is not a key of the placeholders table is still there, verbatim, after all the
  replacements. A message of at most 72 characters is returned as it is; a longer one is
  cut to its first 69 characters followed by three dots, 72 characters in all.
\<close>

theorem applyMessageTemplate_keeps_unknown_and_truncates:
  fixes now :: NowTexts and template :: string and analysis :: FileAnalysis and files :: "string list"
  defines "message \<equiv> replacePlaceholders (placeholders now analysis files) template"
  shows "(\<forall>pre nm post.
            template = pre @ ''{'' @ nm @ ''}'' @ post \<and> CHR ''{'' \<notin> set nm \<and> CHR ''}'' \<notin> set nm
              \<and> ''{'' @ nm @ ''}'' \<notin> fst ` set (placeholders now analysis files)
            \<longrightarrow> (\<exists>a b. message = a @ ''{'' @ nm @ ''}'' @ b))
       \<and> (length message \<le> 72 \<longrightarrow> applyMessageTemplate now template analysis files = message)
       \<and> (length message > 72 \<longrightarrow>
            applyMessageTemplate now template analysis files = take 69 message @ ''...''
            \<and> length (applyMessageTemplate now template analysis files) = 72)"
proof (intro conjI allI impI)
  fix pre nm post
  assume h: "template = pre @ ''{'' @ nm @ ''}'' @ post \<and> CHR ''{'' \<notin> set nm \<and> CHR ''}'' \<notin> set nm
              \<and> ''{'' @ nm @ ''}'' \<notin> fst ` set (placeholders now analysis files)"
  then have "nm \<notin> set [''type'', ''count'', ''files'', ''summary'', ''date'', ''time'', ''timestamp'', ''day'', ''month'', ''year'']"
    unfolding placeholders_def by auto
  from replacePlaceholders_keeps_block [OF placeholders_keys [OF this], of now analysis files pre post] h
  show "\<exists>a b. message = a @ ''{'' @ nm @ ''}'' @ b"
    unfolding message_def by simp
next
  assume "length message \<le> 72"
  then show "applyMessageTemplate now template analysis files = message"
    unfolding message_def applyMessageTemplate_def maxLength_def by (simp add: Let_def)
next
  assume "72 < length message"
  then show "applyMessageTemplate now template analysis files = take 69 message @ ''...''"
    unfolding message_def applyMessageTemplate_def maxLength_def by (simp add: Let_def)
next
  assume "72 < length message"
  then show "length (applyMessageTemplate now template analysis files) = 72"
    unfolding message_def applyMessageTemplate_def maxLength_def by (simp add: Let_def)
qed

lemma short_message:
  "replacePlaceholders (placeholders exampleNow exampleAnalysis [''a.ts'', ''b.ts'']) ''{type}: {ticket} {count}'' = ''code: {ticket} 2''"
  by code_simp

lemma long_message:
  "replacePlaceholders (placeholders exampleNow exampleAnalysis [''a.ts'', ''b.ts'']) longTemplate
     = ''chore(code): {ticket} daily auto-commit of 2 files on Wednesday, the first of January 2025''"
  by code_simp

theorem applyMessageTemplate_keeps_unknown_and_truncates_witness:
  "(\<exists>a b. replacePlaceholders (placeholders exampleNow exampleAnalysis [''a.ts'', ''b.ts'']) longTemplate = a @ ''{ticket}'' @ b)
   \<and> applyMessageTemplate exampleNow ''{type}: {ticket} {count}'' exampleAnalysis [''a.ts'', ''b.ts''] = ''code: {ticket} 2''
   \<and> applyMessageTemplate exampleNow longTemplate exampleAnalysis [''a.ts'', ''b.ts'']
        = ''chore(code): {ticket} daily auto-commit of 2 files on Wednesday, the ...''
   \<and> length (applyMessageTemplate exampleNow longTemplate exampleAnalysis [''a.ts'', ''b.ts'']) = 72"
proof -
  note t1 = applyMessageTemplate_keeps_unknown_and_truncates [of longTemplate exampleNow exampleAnalysis "[''a.ts'', ''b.ts'']"]
  note t2 = applyMessageTemplate_keeps_unknown_and_truncates [of "''{type}: {ticket} {count}''" exampleNow exampleAnalysis "[''a.ts'', ''b.ts'']"]
  have k: "''{'' @ ''ticket'' @ ''}'' \<notin> fst ` set (placeholders exampleNow exampleAnalysis [''a.ts'', ''b.ts''])"
    unfolding placeholders_def by simp
  have "longTemplate = ''chore({type}): '' @ ''{'' @ ''ticket'' @ ''}'' @ '' daily auto-commit of {count} files on {day}, the first of {month} {year}''"
    unfolding longTemplate_def by simp
  with k t1 [THEN conjunct1, rule_format, of "''chore({type}): ''" "''ticket''" "'' daily auto-commit of {count} files on {day}, the first of {month} {year}''"]
  have c1: "\<exists>a b. replacePlaceholders (placeholders exampleNow exampleAnalysis [''a.ts'', ''b.ts'']) longTemplate = a @ ''{ticket}'' @ b"
    by simp
  have c2: "applyMessageTemplate exampleNow ''{type}: {ticket} {count}'' exampleAnalysis [''a.ts'', ''b.ts''] = ''code: {ticket} 2''"
    using t2 [THEN conjunct2, THEN conjunct1] by (simp add: short_message)
  have c3: "applyMessageTemplate exampleNow longTemplate exampleAnalysis [''a.ts'', ''b.ts'']
        = ''chore(code): {ticket} daily auto-commit of 2 files on Wednesday, the ...''
     \<and> length (applyMessageTemplate exampleNow longTemplate exampleAnalysis [''a.ts'', ''b.ts'']) = 72"
    using t1 [THEN conjunct2, THEN conjunct2] by (simp add: long_message)
  from c1 c2 c3 show ?thesis by blast
qed
section \<open>The next run of a daily schedule\<close>

lemma div_decomp:
  fixes q r n :: int
  assumes "0 \<le> r" "r < n"
  shows "(q * n + r) div n = q" and "(q * n + r) mod n = r"
  using assms by (auto simp: div_pos_pos_trivial mod_pos_pos_trivial)

lemma fields_of_MakeDate:
  assumes "0 \<le> h" "h < 24" "0 \<le> m" "m < 60" "0 \<le> s" "s < 60" "0 \<le> ms" "ms < 1000"
  shows "Day (MakeDate d (MakeTime h m s ms)) = d"
    and "HourFromTime (MakeDate d (MakeTime h m s ms)) = h"
    and "MinFromTime (MakeDate d (MakeTime h m s ms)) = m"
    and "SecFromTime (MakeDate d (MakeTime h m s ms)) = s"
    and "msFromTime (MakeDate d (MakeTime h m s ms)) = ms"
    and "TimeWithinDay (MakeDate d (MakeTime h m s ms)) = MakeTime h m s ms"
proof -
  let ?x = "MakeDate d (MakeTime h m s ms)"
  have a: "?x = d * 86400000 + (h * 3600000 + m * 60000 + s * 1000 + ms)"
    by (simp add: MakeDate_def MakeTime_def msPerDay_def)
  have b: "?x = (d * 24 + h) * 3600000 + (m * 60000 + s * 1000 + ms)"
    by (simp add: MakeDate_def MakeTime_def msPerDay_def algebra_simps)
  have c: "?x = ((d * 24 + h) * 60 + m) * 60000 + (s * 1000 + ms)"
    by (simp add: MakeDate_def MakeTime_def msPerDay_def algebra_simps)
  have e: "?x = (((d * 24 + h) * 60 + m) * 60 + s) * 1000 + ms"
    by (simp add: MakeDate_def MakeTime_def msPerDay_def algebra_simps)
  have ra: "0 \<le> h * 3600000 + m * 60000 + s * 1000 + ms" "h * 3600000 + m * 60000 + s * 1000 + ms < 86400000"
    using assms by auto
  have rb: "0 \<le> m * 60000 + s * 1000 + ms" "m * 60000 + s * 1000 + ms < 3600000"
    using assms by auto
  have rc: "0 \<le> s * 1000 + ms" "s * 1000 + ms < 60000"
    using assms by auto
  show "Day ?x = d"
    unfolding Day_def msPerDay_def a using div_decomp(1) [OF ra] by simp
  show "TimeWithinDay ?x = MakeTime h m s ms"
    unfolding TimeWithinDay_def msPerDay_def a using div_decomp(2) [OF ra, of d] by (simp add: MakeTime_def)
  have "?x div 3600000 = d * 24 + h"
    unfolding b using div_decomp(1) [OF rb] by simp
  then show "HourFromTime ?x = h"
    unfolding HourFromTime_def using div_decomp(2) [OF assms(1,2), of d] by simp
  have "?x div 60000 = (d * 24 + h) * 60 + m"
    unfolding c using div_decomp(1) [OF rc] by simp
  then show "MinFromTime ?x = m"
    unfolding MinFromTime_def using div_decomp(2) [OF assms(3,4), of "d * 24 + h"] by simp
  have "?x div 1000 = ((d * 24 + h) * 60 + m) * 60 + s"
    unfolding e using div_decomp(1) [OF assms(7,8)] by simp
  then show "SecFromTime ?x = s"
    unfolding SecFromTime_def using div_decomp(2) [OF assms(5,6), of "(d * 24 + h) * 60 + m"] by simp
  have "msFromTime ?x = ((((d * 24 + h) * 60 + m) * 60 + s) * 1000 + ms) mod 1000"
    by (simp only: msFromTime_def e)
  also have "\<dots> = ms"
    by (rule div_decomp(2) [OF assms(7,8)])
  finally show "msFromTime ?x = ms" .
qed

lemma field_ranges:
  "0 \<le> HourFromTime t" "HourFromTime t < 24" "0 \<le> MinFromTime t" "MinFromTime t < 60"
  "0 \<le> SecFromTime t" "SecFromTime t < 60" "0 \<le> msFromTime t" "msFromTime t < 1000"
  by (simp_all add: HourFromTime_def MinFromTime_def SecFromTime_def msFromTime_def)

lemma parseInt_star: "parseInt ''*'' = None"
  by (simp add: parseInt_def isWhiteSpace_def isDigit_def Let_def)

lemma getNextCronDate_fixed_time:
  assumes parts: "splitOn CHR '' '' expr = [minute, hour, dayOfMonth, month, dayOfWeek]"
    and m: "parseInt minute = Some m" "0 \<le> m" "m < 60"
    and h: "parseInt hour = Some h" "0 \<le> h" "h < 24"
  shows "getNextCronDate expr (Time t) =
           Inr (Time (if MakeDate (Day t) (MakeTime h m 0 0) \<le> t
                      then MakeDate (Day t + 1) (MakeTime h m 0 0)
                      else MakeDate (Day t) (MakeTime h m 0 0)))"
proof -
  have ns: "minute \<noteq> ''*''" "hour \<noteq> ''*''"
    using m(1) h(1) parseInt_star by auto
  note r = field_ranges [of t]
  let ?t0 = "MakeDate (Day t) (MakeTime (HourFromTime t) (MinFromTime t) 0 (msFromTime t))"
  let ?t1 = "MakeDate (Day t) (MakeTime (HourFromTime t) (MinFromTime t) 0 0)"
  let ?t2 = "MakeDate (Day t) (MakeTime (HourFromTime t) m 0 0)"
  let ?t3 = "MakeDate (Day t) (MakeTime h m 0 0)"
  have s0: "setSeconds (Time t) (Some 0) = Time ?t0" by simp
  have s1: "setMilliseconds (Time ?t0) (Some 0) = Time ?t1"
    using fields_of_MakeDate [OF r(1,2,3,4) _ _ r(7,8), of 0 "Day t"] by simp
  have s2: "setMinutes (Time ?t1) (Some m) = Time ?t2"
    using fields_of_MakeDate [OF r(1,2,3,4), of 0 0 "Day t"] by simp
  have s3: "setHours (Time ?t2) (Some h) = Time ?t3"
    using fields_of_MakeDate [OF r(1,2) m(2,3), of 0 0 "Day t"] by simp
  have s4: "setDateToNextDay (Time ?t3) = Time (MakeDate (Day t + 1) (MakeTime h m 0 0))"
    using fields_of_MakeDate [OF h(2,3) m(2,3), of 0 0 "Day t"] by simp
  show ?thesis
    unfolding getNextCronDate_def parts using ns m(1) h(1)
    by (simp add: Let_def s0 s1 s2 s3 s4 del: setSeconds.simps setMilliseconds.simps setMinutes.simps setHours.simps setDateToNextDay.simps)
qed

lemma getNextCronDate_other_fields:
  assumes "splitOn CHR '' '' expr = [minute, hour, a, b, c]"
    and "splitOn CHR '' '' expr' = [minute, hour, a', b', c']"
  shows "getNextCronDate expr fromDate = getNextCronDate expr' fromDate"
  unfolding getNextCronDate_def assms by (simp add: Let_def)

text \<open>
  Claim C6. \<^verbatim>\<open>getNextCronDate\<close> on the cron expression \<open>0 18 * * *\<close> gives 2025-01-01 18:00
  from 2025-01-01 10:00 and 2025-01-02 18:00 from 2025-01-01 19:00. For every expression of five
  fields whose minute and hour are numbers in range, the result is today at that hour and
  minute, zero seconds and milliseconds, when that is after the starting time, and the same
  time on the next calendar day otherwise. The last three fields do not change the result.
\<close>

theorem getNextCronDate_daily_fixed_time:
  "getNextCronDate ''0 18 * * *'' (newDate 2025 0 1 10 0 0) = Inr (newDate 2025 0 1 18 0 0)
   \<and> getNextCronDate ''0 18 * * *'' (newDate 2025 0 1 19 0 0) = Inr (newDate 2025 0 2 18 0 0)
   \<and> (\<forall>expr minute hour a b c m h t.
         splitOn CHR '' '' expr = [minute, hour, a, b, c]
           \<and> parseInt minute = Some m \<and> 0 \<le> m \<and> m < 60 \<and> parseInt hour = Some h \<and> 0 \<le> h \<and> h < 24
         \<longrightarrow> getNextCronDate expr (Time t) =
               Inr (Time (if MakeDate (Day t) (MakeTime h m 0 0) \<le> t
                          then MakeDate (Day t + 1) (MakeTime h m 0 0)
                          else MakeDate (Day t) (MakeTime h m 0 0))))
   \<and> (\<forall>expr expr' minute hour a b c a' b' c' fromDate.
         splitOn CHR '' '' expr = [minute, hour, a, b, c] \<and> splitOn CHR '' '' expr' = [minute, hour, a', b', c']
         \<longrightarrow> getNextCronDate expr fromDate = getNextCronDate expr' fromDate)"
proof (intro conjI allI impI)
  show "getNextCronDate ''0 18 * * *'' (newDate 2025 0 1 10 0 0) = Inr (newDate 2025 0 1 18 0 0)"
    by code_simp
  show "getNextCronDate ''0 18 * * *'' (newDate 2025 0 1 19 0 0) = Inr (newDate 2025 0 2 18 0 0)"
    by code_simp
next
  fix expr minute hour a b c m h t
  assume "splitOn CHR '' '' expr = [minute, hour, a, b, c]
           \<and> parseInt minute = Some m \<and> 0 \<le> m \<and> m < 60 \<and> parseInt hour = Some h \<and> 0 \<le> h \<and> h < 24"
  then show "getNextCronDate expr (Time t) =
               Inr (Time (if MakeDate (Day t) (MakeTime h m 0 0) \<le> t
                          then MakeDate (Day t + 1) (MakeTime h m 0 0)
                          else MakeDate (Day t) (MakeTime h m 0 0)))"
    using getNextCronDate_fixed_time by blast
next
  fix expr expr' minute hour a b c a' b' c' fromDate
  assume "splitOn CHR '' '' expr = [minute, hour, a, b, c] \<and> splitOn CHR '' '' expr' = [minute, hour, a', b', c']"
  then show "getNextCronDate expr fromDate = getNextCronDate expr' fromDate"
    using getNextCronDate_other_fields by blast
qed

lemma split_0_18: "splitOn CHR '' '' ''0 18 * * *'' = [''0'', ''18'', ''*'', ''*'', ''*'']"
  by code_simp

lemma split_0_18_weekday: "splitOn CHR '' '' ''0 18 1 6 2'' = [''0'', ''18'', ''1'', ''6'', ''2'']"
  by code_simp

lemma parseInt_0: "parseInt ''0'' = Some 0"
  by code_simp

lemma parseInt_18: "parseInt ''18'' = Some 18"
  by code_simp

theorem getNextCronDate_daily_fixed_time_witness:
  "getNextCronDate ''0 18 * * *'' (Time 1735725600000) = Inr (Time 1735754400000)
   \<and> getNextCronDate ''0 18 * * *'' (Time 1735758000000) = Inr (Time 1735840800000)
   \<and> getNextCronDate ''0 18 * * *'' (Time 1735758000000) = getNextCronDate ''0 18 1 6 2'' (Time 1735758000000)"
proof -
  note g = getNextCronDate_daily_fixed_time [THEN conjunct2, THEN conjunct2, THEN conjunct1, rule_format,
      of "''0 18 * * *''" "''0''" "''18''" "''*''" "''*''" "''*''" 0 18]
  note i = getNextCronDate_daily_fixed_time [THEN conjunct2, THEN conjunct2, THEN conjunct2, rule_format,
      of "''0 18 * * *''" "''0''" "''18''" "''*''" "''*''" "''*''" "''0 18 1 6 2''" "''1''" "''6''" "''2''" "Time 1735758000000"]
  have pre: "splitOn CHR '' '' ''0 18 * * *'' = [''0'', ''18'', ''*'', ''*'', ''*'']
           \<and> parseInt ''0'' = Some 0 \<and> (0::int) \<le> 0 \<and> (0::int) < 60 \<and> parseInt ''18'' = Some 18 \<and> (0::int) \<le> 18 \<and> (18::int) < 24"
    by (simp add: split_0_18 parseInt_0 parseInt_18)
  have a: "getNextCronDate ''0 18 * * *'' (Time 1735725600000) = Inr (Time 1735754400000)"
    using g [OF pre, of 1735725600000] by (simp add: MakeDate_def MakeTime_def Day_def msPerDay_def)
  have b: "getNextCronDate ''0 18 * * *'' (Time 1735758000000) = Inr (Time 1735840800000)"
    using g [OF pre, of 1735758000000] by (simp add: MakeDate_def MakeTime_def Day_def msPerDay_def)
  have c: "getNextCronDate ''0 18 * * *'' (Time 1735758000000) = getNextCronDate ''0 18 1 6 2'' (Time 1735758000000)"
    using i by (simp add: split_0_18 split_0_18_weekday)
  from a b c show ?thesis by blast
qed

section \<open>Missed executions\<close>

lemma recordMissedExecution_drop:
  "recordMissedExecution now xs = drop (length (xs @ [now]) - 10) (xs @ [now])"
  by (simp add: recordMissedExecution_def Let_def)

lemma recordMissedExecution_length: "length (recordMissedExecution now xs) \<le> 10"
  by (simp add: recordMissedExecution_def Let_def)

lemma recordMissedExecution_after_drop:
  "recordMissedExecution now (drop (length ys - 10) ys) = drop (length (ys @ [now]) - 10) (ys @ [now])"
proof (cases "10 \<le> length ys")
  case True
  then have "Suc (length ys - 10) = length ys - 9" by arith
  with True show ?thesis by (simp add: recordMissedExecution_def Let_def)
next
  case False
  then show ?thesis by (simp add: recordMissedExecution_def Let_def)
qed

lemma fold_recordMissedExecution_drop:
  "foldl (\<lambda>held t. recordMissedExecution t held) (drop (length ys - 10) ys) nows
     = drop (length (ys @ nows) - 10) (ys @ nows)"
proof (induction nows arbitrary: ys)
  case Nil
  show ?case by simp
next
  case (Cons n nows)
  show ?case
    using Cons.IH [of "ys @ [n]"] by (simp add: recordMissedExecution_after_drop)
qed

lemma fold_recordMissedExecution:
  assumes "nows \<noteq> []"
  shows "foldl (\<lambda>held t. recordMissedExecution t held) xs nows = drop (length (xs @ nows) - 10) (xs @ nows)"
proof -
  from assms obtain n ns where nows: "nows = n # ns" by (cases nows) auto
  show ?thesis
    unfolding nows using fold_recordMissedExecution_drop [of "xs @ [n]" ns]
    by (simp add: recordMissedExecution_drop)
qed

lemma calendarDate_greater:
  "dateGreater (calendarDate (Time b)) (calendarDate (Time a)) = (Day a < Day b)"
  by (simp add: MakeDate_def msPerDay_def)


lemma calculateNextRun_keeps:
  "invocations (calculateNextRun s) = invocations s"
  "missedExecutions (state (calculateNextRun s)) = missedExecutions (state s)"
  "lastRun (state (calculateNextRun s)) = lastRun (state s)"
  "stateFile (calculateNextRun s) = stateFile s"
  "cronExpression (calculateNextRun s) = cronExpression s"
  "callback (calculateNextRun s) = callback s"
  "task (calculateNextRun s) = task s"
  "isActive (state (calculateNextRun s)) = isActive (state s)"
  "canWrite (calculateNextRun s) = canWrite s"
  "writes (calculateNextRun s) = writes s"
  "cronValidate (calculateNextRun s) = cronValidate s"
  by (auto simp: calculateNextRun_def currentDate_def logMessage_def Let_def split: sum.splits jsDate.splits)

lemma updateLastRun_keeps:
  "invocations (updateLastRun s) = invocations s"
  "missedExecutions (state (updateLastRun s)) = missedExecutions (state s)"
  "stateFile (updateLastRun s) = stateFile s"
  "canWrite (updateLastRun s) = canWrite s"
  "writes (updateLastRun s) = writes s"
  by (simp_all add: updateLastRun_def currentDate_def calculateNextRun_keeps Let_def)

lemma saveState_keeps:
  "invocations (saveState s) = invocations s"
  "state (saveState s) = state s"
  "cronExpression (saveState s) = cronExpression s"
  "callback (saveState s) = callback s"
  "task (saveState s) = task s"
  "cronValidate (saveState s) = cronValidate s"
  by (simp_all add: saveState_def logMessage_def Let_def)

lemma saveState_file:
  "stateFile (saveState s) = (if canWrite s (writes s) then Stored (snapshot (state s)) else stateFile s)"
  by (simp add: saveState_def logMessage_def Let_def)

lemma loadState_stored:
  assumes "stateFile s = Stored f"
  shows "lastRun (state (loadState s)) = (case storedLastRun f of Some d \<Rightarrow> Some d | None \<Rightarrow> lastRun (state s))"
    and "missedExecutions (state (loadState s)) = (case storedMissedExecutions f of Some xs \<Rightarrow> xs | None \<Rightarrow> [])"
    and "callback (loadState s) = callback s" "cronExpression (loadState s) = cronExpression s"
    and "invocations (loadState s) = invocations s" "clock (loadState s) = clock s" "ticks (loadState s) = ticks s"
    and "stateFile (loadState s) = stateFile s"
  using assms by (simp_all add: loadState_def)

lemma handleMissedExecutionsBody_detected:
  assumes "stateFile s = Stored f" "storedLastRun f = Some (Time lr)" "callback s = Some cb" "cronExpression s \<noteq> []"
    and "Day lr < Day (clock s (ticks s))"
  shows "fst (handleMissedExecutionsBody s) = (case cb of Returns \<Rightarrow> Inr True | Throws e \<Rightarrow> Inl e)"
    and "invocations (snd (handleMissedExecutionsBody s)) = invocations s + 1"
    and "missedExecutions (state (snd (handleMissedExecutionsBody s)))
          = recordMissedExecution (Time (clock s (ticks s))) (case storedMissedExecutions f of Some xs \<Rightarrow> xs | None \<Rightarrow> [])"
  using assms loadState_stored [OF assms(1)]
  by (simp_all add: handleMissedExecutionsBody_def currentDate_def shouldHaveRunSince_def
      logMessage_def Let_def calendarDate_greater updateLastRun_keeps saveState_keeps
      del: calendarDate.simps dateGreater.simps split: callback.splits)

lemma handleMissedExecutionsBody_not_detected:
  assumes "stateFile s = Stored f" "storedLastRun f = Some (Time lr)" "callback s = Some cb" "cronExpression s \<noteq> []"
    and "\<not> Day lr < Day (clock s (ticks s))"
  shows "fst (handleMissedExecutionsBody s) = Inr False"
    and "invocations (snd (handleMissedExecutionsBody s)) = invocations s"
    and "missedExecutions (state (snd (handleMissedExecutionsBody s)))
          = (case storedMissedExecutions f of Some xs \<Rightarrow> xs | None \<Rightarrow> [])"
  using assms loadState_stored [OF assms(1)]
  by (simp_all add: handleMissedExecutionsBody_def currentDate_def shouldHaveRunSince_def
      logMessage_def Let_def calendarDate_greater
      del: calendarDate.simps dateGreater.simps)

lemma handleMissedExecutions_of_body:
  "fst (handleMissedExecutions s) = (case fst (handleMissedExecutionsBody s) of Inl e \<Rightarrow> Inr False | Inr b \<Rightarrow> Inr b)"
  "invocations (snd (handleMissedExecutions s)) = invocations (snd (handleMissedExecutionsBody s))"
  "state (snd (handleMissedExecutions s)) = state (snd (handleMissedExecutionsBody s))"
  "stateFile (snd (handleMissedExecutions s)) = stateFile (snd (handleMissedExecutionsBody s))"
  by (auto simp: handleMissedExecutions_def logMessage_def split: prod.splits sum.splits)




lemma loadState_keeps_invocations: "invocations (loadState s) = invocations s"
  by (simp add: loadState_def logMessage_def split: stateFile.splits)

lemma handleMissedExecutionsBody_invoked:
  assumes "invocations (snd (handleMissedExecutionsBody s)) \<noteq> invocations s"
  shows "\<exists>now held. missedExecutions (state (snd (handleMissedExecutionsBody s))) = recordMissedExecution now held"
  using assms
  by (auto simp: handleMissedExecutionsBody_def currentDate_def logMessage_def Let_def
      loadState_keeps_invocations updateLastRun_keeps saveState_keeps
      split: option.splits if_splits callback.splits)

text \<open>
  Claim C4. With a last run in the state file and a callback installed (by
  \<^verbatim>\<open>schedule\<close>, which stores the callback together with a cron expression that the
  validator accepted), \<^verbatim>\<open>handleMissedExecutions\<close> invokes the callback (once) exactly when the calendar day of
  now is after the calendar day of the last run, records now in \<open>missedExecutions\<close> then,
  and, when the callback returns, answers that comparison. A last run two calendar days
  back gives true, one invocation and one new entry; a last run on the same calendar day
  gives false and no invocation.
\<close>

theorem handleMissedExecutions_detects_crossed_day:
  assumes "stateFile s = Stored f" and "storedLastRun f = Some (Time lastRunAt)"
    and "callback s = Some cb" and "cronExpression s \<noteq> []"
  shows "(let now = clock s (ticks s);
              held = (case storedMissedExecutions f of Some xs \<Rightarrow> xs | None \<Rightarrow> []);
              result = fst (handleMissedExecutions s);
              s' = snd (handleMissedExecutions s)
          in (cb = Returns \<longrightarrow> result = Inr (Day lastRunAt < Day now))
           \<and> ((invocations s' = invocations s + 1) = (Day lastRunAt < Day now))
           \<and> (Day lastRunAt < Day now \<longrightarrow>
                 missedExecutions (state s') = recordMissedExecution (Time now) held
                 \<and> (length held < 10 \<longrightarrow> missedExecutions (state s') = held @ [Time now]))
           \<and> (Day now = Day lastRunAt + 2 \<and> cb = Returns \<longrightarrow>
                 result = Inr True \<and> invocations s' = invocations s + 1)
           \<and> (Day now = Day lastRunAt \<longrightarrow>
                 result = Inr False \<and> invocations s' = invocations s \<and> missedExecutions (state s') = held))"
proof (cases "Day lastRunAt < Day (clock s (ticks s))")
  case True
  note d = handleMissedExecutionsBody_detected [OF assms True]
  show ?thesis
    using True d by (auto simp: Let_def handleMissedExecutions_of_body recordMissedExecution_def split: callback.splits)
next
  case False
  note d = handleMissedExecutionsBody_not_detected [OF assms False]
  show ?thesis
    using False d by (auto simp: Let_def handleMissedExecutions_of_body)
qed

lemma Day_examples:
  "Day 1735754400000 = 20089" "Day 1735894800000 = 20091" "Day 1735891200000 = 20091"
  by (simp_all add: Day_def msPerDay_def)

theorem handleMissedExecutions_detects_crossed_day_witness:
  "fst (handleMissedExecutions (installedScheduler (Stored (storedWithLastRun 1735754400000 [])) Returns 1735894800000)) = Inr True
   \<and> invocations (snd (handleMissedExecutions (installedScheduler (Stored (storedWithLastRun 1735754400000 [])) Returns 1735894800000))) = 1
   \<and> missedExecutions (state (snd (handleMissedExecutions (installedScheduler (Stored (storedWithLastRun 1735754400000 [])) Returns 1735894800000))))
        = [Time 1735894800000]
   \<and> fst (handleMissedExecutions (installedScheduler (Stored (storedWithLastRun 1735891200000 [])) Returns 1735894800000)) = Inr False
   \<and> invocations (snd (handleMissedExecutions (installedScheduler (Stored (storedWithLastRun 1735891200000 [])) Returns 1735894800000))) = 0"
proof -
  let ?a = "installedScheduler (Stored (storedWithLastRun 1735754400000 [])) Returns 1735894800000"
  let ?b = "installedScheduler (Stored (storedWithLastRun 1735891200000 [])) Returns 1735894800000"
  have a: "stateFile ?a = Stored (storedWithLastRun 1735754400000 [])"
      "storedLastRun (storedWithLastRun 1735754400000 []) = Some (Time 1735754400000)"
      "callback ?a = Some Returns" "cronExpression ?a \<noteq> []"
    by (simp_all add: installedScheduler_def newScheduler_def storedWithLastRun_def)
  have b: "stateFile ?b = Stored (storedWithLastRun 1735891200000 [])"
      "storedLastRun (storedWithLastRun 1735891200000 []) = Some (Time 1735891200000)"
      "callback ?b = Some Returns" "cronExpression ?b \<noteq> []"
    by (simp_all add: installedScheduler_def newScheduler_def storedWithLastRun_def)
  have c: "clock ?a (ticks ?a) = 1735894800000" "clock ?b (ticks ?b) = 1735894800000"
      "invocations ?a = 0" "invocations ?b = 0"
      "storedMissedExecutions (storedWithLastRun 1735754400000 []) = Some []"
    by (simp_all add: installedScheduler_def newScheduler_def storedWithLastRun_def)
  from handleMissedExecutions_detects_crossed_day [OF a]
  have "fst (handleMissedExecutions ?a) = Inr True \<and> invocations (snd (handleMissedExecutions ?a)) = 1
        \<and> missedExecutions (state (snd (handleMissedExecutions ?a))) = [Time 1735894800000]"
    by (simp add: Let_def c Day_examples recordMissedExecution_def)
  moreover from handleMissedExecutions_detects_crossed_day [OF b]
  have "fst (handleMissedExecutions ?b) = Inr False \<and> invocations (snd (handleMissedExecutions ?b)) = 0"
    by (simp add: Let_def c Day_examples)
  ultimately show ?thesis by blast
qed

text \<open>
  Claim C7. Recording a missed execution leaves at most ten entries, the last ten of the old
  entries followed by the new one; after any non-empty series of recordings the list is the
  last ten of everything held and recorded; and after a call of
  \<^verbatim>\<open>handleMissedExecutions\<close> that invoked the callback the scheduler holds at most ten.
\<close>

theorem missedExecutions_at_most_ten:
  "length (recordMissedExecution now xs) \<le> 10
   \<and> recordMissedExecution now xs = drop (length (xs @ [now]) - 10) (xs @ [now])
   \<and> (nows \<noteq> [] \<longrightarrow>
        foldl (\<lambda>held t. recordMissedExecution t held) xs nows = drop (length (xs @ nows) - 10) (xs @ nows)
        \<and> length (foldl (\<lambda>held t. recordMissedExecution t held) xs nows) \<le> 10)
   \<and> (invocations (snd (handleMissedExecutions s)) \<noteq> invocations s \<longrightarrow>
        length (missedExecutions (state (snd (handleMissedExecutions s)))) \<le> 10)"
proof (intro conjI impI)
  show "length (recordMissedExecution now xs) \<le> 10"
    by (rule recordMissedExecution_length)
  show "recordMissedExecution now xs = drop (length (xs @ [now]) - 10) (xs @ [now])"
    by (rule recordMissedExecution_drop)
next
  assume "nows \<noteq> []"
  then show "foldl (\<lambda>held t. recordMissedExecution t held) xs nows = drop (length (xs @ nows) - 10) (xs @ nows)"
    by (rule fold_recordMissedExecution)
next
  assume "nows \<noteq> []"
  then have "foldl (\<lambda>held t. recordMissedExecution t held) xs nows = drop (length (xs @ nows) - 10) (xs @ nows)"
    by (rule fold_recordMissedExecution)
  then show "length (foldl (\<lambda>held t. recordMissedExecution t held) xs nows) \<le> 10"
    by simp
next
  assume "invocations (snd (handleMissedExecutions s)) \<noteq> invocations s"
  then have "invocations (snd (handleMissedExecutionsBody s)) \<noteq> invocations s"
    by (simp add: handleMissedExecutions_of_body)
  from handleMissedExecutionsBody_invoked [OF this]
  show "length (missedExecutions (state (snd (handleMissedExecutions s)))) \<le> 10"
    by (auto simp: handleMissedExecutions_of_body recordMissedExecution_length)
qed


lemma tenHeld_length: "length tenHeld = 10"
  by (simp add: tenHeld_def)

theorem missedExecutions_at_most_ten_witness:
  "foldl (\<lambda>held t. recordMissedExecution t held) tenHeld [Time 1, Time 2] = drop 2 tenHeld @ [Time 1, Time 2]
   \<and> length (foldl (\<lambda>held t. recordMissedExecution t held) tenHeld [Time 1, Time 2]) \<le> 10
   \<and> invocations (snd (handleMissedExecutions (installedScheduler (Stored (storedWithLastRun 1735754400000 tenHeld)) Returns 1735894800000))) = 1
   \<and> length (missedExecutions (state (snd (handleMissedExecutions
        (installedScheduler (Stored (storedWithLastRun 1735754400000 tenHeld)) Returns 1735894800000))))) \<le> 10"
proof -
  let ?s = "installedScheduler (Stored (storedWithLastRun 1735754400000 tenHeld)) Returns 1735894800000"
  note t = missedExecutions_at_most_ten [of "Time 0" tenHeld "[Time 1, Time 2]" ?s]
  have a: "stateFile ?s = Stored (storedWithLastRun 1735754400000 tenHeld)"
      "storedLastRun (storedWithLastRun 1735754400000 tenHeld) = Some (Time 1735754400000)"
      "callback ?s = Some Returns" "cronExpression ?s \<noteq> []"
      "Day 1735754400000 < Day (clock ?s (ticks ?s))"
    by (simp_all add: installedScheduler_def newScheduler_def storedWithLastRun_def Day_examples)
  have i: "invocations (snd (handleMissedExecutions ?s)) = 1"
    using handleMissedExecutionsBody_detected(2) [OF a]
    by (simp add: handleMissedExecutions_of_body installedScheduler_def newScheduler_def)
  have z: "invocations ?s = 0"
    by (simp add: installedScheduler_def newScheduler_def)
  have "foldl (\<lambda>held t. recordMissedExecution t held) tenHeld [Time 1, Time 2] = drop 2 tenHeld @ [Time 1, Time 2]
     \<and> length (foldl (\<lambda>held t. recordMissedExecution t held) tenHeld [Time 1, Time 2]) \<le> 10"
    using t [THEN conjunct2, THEN conjunct2, THEN conjunct1] by (simp add: tenHeld_length)
  moreover have "length (missedExecutions (state (snd (handleMissedExecutions ?s)))) \<le> 10"
    using t [THEN conjunct2, THEN conjunct2, THEN conjunct2] i z by simp
  ultimately show ?thesis using i by blast
qed

text \<open>
  Claim C5. \<^verbatim>\<open>handleMissedExecutions\<close> returns an answer in every state: it never
  throws. The run on a scheduler whose last run is two
  days back and whose callback throws \<open>Execution failed\<close>: the body of the outer
  \<^verbatim>\<open>try\<close> throws the error of the callback, and the outer \<^verbatim>\<open>catch\<close> turns it into the
  answer false. Nothing is written to the state file; the entry recorded in memory stays.
\<close>

theorem handleMissedExecutions_swallows_callback_error:
  "(\<exists>answer. fst (handleMissedExecutions s) = Inr answer)
   \<and> fst (handleMissedExecutionsBody throwingScheduler) = Inl (PlainError ''Execution failed'')
   \<and> fst (handleMissedExecutions throwingScheduler) = Inr False
   \<and> invocations (snd (handleMissedExecutions throwingScheduler)) = 1
   \<and> stateFile (snd (handleMissedExecutions throwingScheduler)) = stateFile throwingScheduler
   \<and> missedExecutions (state (snd (handleMissedExecutions throwingScheduler))) = [Time 1735894800000]
   \<and> logged (snd (handleMissedExecutions throwingScheduler))
       = [(LogInfo, ''Detected missed execution, executing now''),
          (LogError, ''Failed to execute missed callback''),
          (LogError, ''Failed to handle missed executions'')]"
proof -
  have "\<exists>answer. fst (handleMissedExecutions s) = Inr answer"
    by (cases "fst (handleMissedExecutionsBody s)") (auto simp: handleMissedExecutions_of_body)
  then show ?thesis
    by (simp add: throwingScheduler_def installedScheduler_def newScheduler_def storedWithLastRun_def
        handleMissedExecutions_def handleMissedExecutionsBody_def loadState_def currentDate_def
        shouldHaveRunSince_def logMessage_def recordMissedExecution_def Let_def
        MakeDate_def Day_def msPerDay_def)
qed
section \<open>The retrying commit\<close>

lemma frame_refl [simp]: "sameCallsAndTimeouts m m"
  by (simp add: sameCallsAndTimeouts_def)

lemma frame_exec [simp]:
  "sameCallsAndTimeouts m (snd (executeGitCommand g c m1)) = sameCallsAndTimeouts m m1"
  by (auto simp: sameCallsAndTimeouts_def executeGitCommand_def awaitedTimeouts_def Let_def split: sum.splits)

lemma frame_access [simp]:
  "sameCallsAndTimeouts m (snd (access g p m1)) = sameCallsAndTimeouts m m1"
  by (auto simp: sameCallsAndTimeouts_def access_def awaitedTimeouts_def)

lemma frame_hasChanges [simp]:
  "sameCallsAndTimeouts m (snd (hasChanges g m1)) = sameCallsAndTimeouts m m1"
  by (simp add: hasChanges_def case_prod_unfold split: sum.splits)

lemma frame_getGitDirectory [simp]:
  "sameCallsAndTimeouts m (snd (getGitDirectory g m1)) = sameCallsAndTimeouts m m1"
  by (simp add: getGitDirectory_def case_prod_unfold Let_def split: sum.splits)

lemma frame_getLatestCommitHash [simp]:
  "sameCallsAndTimeouts m (snd (getLatestCommitHash g m1)) = sameCallsAndTimeouts m m1"
  by (simp add: getLatestCommitHash_def case_prod_unfold split: sum.splits)

lemma frame_getChangedFilesFromCommit [simp]:
  "sameCallsAndTimeouts m (snd (getChangedFilesFromCommit g h m1)) = sameCallsAndTimeouts m m1"
  by (simp add: getChangedFilesFromCommit_def warn_def case_prod_unfold split: sum.splits)

lemma frame_getRepositoryStateBody [simp]:
  "sameCallsAndTimeouts m (snd (getRepositoryStateBody g m1)) = sameCallsAndTimeouts m m1"
  by (simp add: getRepositoryStateBody_def case_prod_unfold Let_def split: sum.splits)

lemma frame_getRepositoryState [simp]:
  "sameCallsAndTimeouts m (snd (getRepositoryState g m1)) = sameCallsAndTimeouts m m1"
  by (simp add: getRepositoryState_def case_prod_unfold split: sum.splits)

lemma frame_isRepositoryClean [simp]:
  "sameCallsAndTimeouts m (snd (isRepositoryClean g m1)) = sameCallsAndTimeouts m m1"
  by (simp add: isRepositoryClean_def case_prod_unfold Let_def)

lemma frame_createCommitBody [simp]:
  "sameCallsAndTimeouts m (snd (createCommitBody g msg m1)) = sameCallsAndTimeouts m m1"
  by (simp add: createCommitBody_def case_prod_unfold Let_def split: sum.splits)

lemma createCommit_frame:
  "createCommitCalls (snd (createCommit g msg m)) = createCommitCalls m + 1"
  "awaitedTimeouts (snd (createCommit g msg m)) = awaitedTimeouts m"
proof -
  have "sameCallsAndTimeouts (m\<lparr>createCommitCalls := createCommitCalls m + 1\<rparr>) (snd (createCommit g msg m))"
    by (simp add: createCommit_def case_prod_unfold split: sum.splits)
  then show "createCommitCalls (snd (createCommit g msg m)) = createCommitCalls m + 1"
    "awaitedTimeouts (snd (createCommit g msg m)) = awaitedTimeouts m"
    by (simp_all add: sameCallsAndTimeouts_def awaitedTimeouts_def)
qed

lemma dontRetry_preconditions:
  "dontRetry (GitOperationError ''Repository is not in a clean state for auto-commit'' None)"
  "dontRetry (GitOperationError ''No changes to commit'' None)"
  "dontRetry (GitOperationError ''Commit message cannot be empty'' None)"
  by code_simp+

lemma retryLoop_unfold:
  "retryLoop g message maxRetries delayMs attempt lastErr m =
     (if attempt \<le> maxRetries then
        (if isl (fst (createCommit g message m)) then
           (if dontRetry (projl (fst (createCommit g message m))) then createCommit g message m
            else if attempt < maxRetries
            then (Inl (TypeError ''defaultLogger.warn is not a function''), snd (createCommit g message m))
            else retryLoop g message maxRetries delayMs (attempt + 1) (Some (projl (fst (createCommit g message m))))
                   (snd (createCommit g message m)))
         else createCommit g message m)
      else
        (Inl (GitOperationError
                (''Failed to create commit after '' @ showInt maxRetries @ '' attempts: ''
                   @ (case lastErr of Some e \<Rightarrow> errorMessage e | None \<Rightarrow> ''undefined''))
                lastErr), m))"
  by (subst retryLoop.simps) (auto simp: warn_def split: prod.splits sum.splits)

lemma createCommitWithRetry_not_retried:
  assumes "1 \<le> maxRetries" "fst (createCommit g message m) = Inl e" "dontRetry e"
  shows "createCommitWithRetry g message maxRetries delayMs m = createCommit g message m"
  unfolding createCommitWithRetry_def
  by (subst retryLoop_unfold) (use assms in simp)

lemma createCommitWithRetry_warn_throws:
  assumes "2 \<le> maxRetries" "fst (createCommit g message m) = Inl e" "\<not> dontRetry e"
  shows "createCommitWithRetry g message maxRetries delayMs m
           = (Inl (TypeError ''defaultLogger.warn is not a function''), snd (createCommit g message m))"
  unfolding createCommitWithRetry_def
  by (subst retryLoop_unfold) (use assms in simp)

lemma createCommitWithRetry_single_attempt:
  assumes "fst (createCommit g message m) = Inl e" "\<not> dontRetry e"
  shows "createCommitWithRetry g message 1 delayMs m
           = (Inl (GitOperationError (''Failed to create commit after '' @ showInt 1 @ '' attempts: '' @ errorMessage e) (Some e)),
              snd (createCommit g message m))"
  unfolding createCommitWithRetry_def
  by (subst retryLoop_unfold, subst retryLoop_unfold) (use assms in simp)

lemmas git_defs = executeGitCommand_def access_def hasChanges_def getGitDirectory_def getLatestCommitHash_def
  getChangedFilesFromCommit_def getRepositoryStateBody_def getRepositoryState_def isRepositoryClean_def
  createCommitBody_def createCommit_def


lemma trim_examples:
  "trim [] = []" "trim gitDirOutput = ''.git''" "trim headOutput = ''refs/heads/main''"
  "trim oneModified = ''M a.ts''" "trim ''daily'' = ''daily''"
  by (simp_all add: trim_def isWhiteSpace_def gitDirOutput_def headOutput_def oneModified_def)

lemma unchangedGit_createCommit:
  "fst (createCommit unchangedGit ''daily'' m) = Inl (GitOperationError ''No changes to commit'' None)"
  by (simp add: unchangedGit_def git_defs gitWith_def repoAnswers_def Let_def trim_examples)

lemma lockedGit_createCommit:
  "fst (createCommit lockedGit ''daily'' m) = Inl lockedError"
  by (simp add: lockedGit_def lockedError_def git_defs gitWith_def repoAnswers_def lockedIndex_def Let_def trim_examples)

lemma lockedError_retried: "\<not> dontRetry lockedError"
  by code_simp

lemma createCommit_precondition_errors:
  "\<not> fst (isRepositoryClean g (m\<lparr>createCommitCalls := createCommitCalls m + 1\<rparr>)) \<Longrightarrow>
     fst (createCommit g message m) = Inl (GitOperationError ''Repository is not in a clean state for auto-commit'' None)"
  "fst (isRepositoryClean g (m\<lparr>createCommitCalls := createCommitCalls m + 1\<rparr>)) \<Longrightarrow>
   fst (hasChanges g (snd (isRepositoryClean g (m\<lparr>createCommitCalls := createCommitCalls m + 1\<rparr>)))) = Inr False \<Longrightarrow>
     fst (createCommit g message m) = Inl (GitOperationError ''No changes to commit'' None)"
  "fst (isRepositoryClean g (m\<lparr>createCommitCalls := createCommitCalls m + 1\<rparr>)) \<Longrightarrow>
   fst (hasChanges g (snd (isRepositoryClean g (m\<lparr>createCommitCalls := createCommitCalls m + 1\<rparr>)))) = Inr True \<Longrightarrow>
   trim message = [] \<Longrightarrow>
     fst (createCommit g message m) = Inl (GitOperationError ''Commit message cannot be empty'' None)"
  by (simp_all add: createCommit_def createCommitBody_def case_prod_unfold Let_def)

text \<open>
  Claim C2. For every message and every \<open>maxRetries\<close> of at least one: when the first call of
  \<^verbatim>\<open>createCommit\<close> throws one of its three precondition errors (no changes, empty message,
  repository not in a clean state), \<^verbatim>\<open>createCommitWithRetry\<close> throws that very error and
  ends in the state that one call left: \<^verbatim>\<open>createCommit\<close> was called once and no delay was
  awaited.
\<close>

theorem createCommitWithRetry_precondition_error_not_retried:
  assumes "1 \<le> maxRetries"
    and "fst (createCommit g message m) = Inl e"
    and "e = GitOperationError ''No changes to commit'' None
         \<or> e = GitOperationError ''Commit message cannot be empty'' None
         \<or> e = GitOperationError ''Repository is not in a clean state for auto-commit'' None"
  shows "createCommitWithRetry g message maxRetries delayMs m = (Inl e, snd (createCommit g message m))
         \<and> createCommitCalls (snd (createCommitWithRetry g message maxRetries delayMs m)) = createCommitCalls m + 1
         \<and> awaitedTimeouts (snd (createCommitWithRetry g message maxRetries delayMs m)) = awaitedTimeouts m"
proof -
  from assms(3) have "dontRetry e"
    using dontRetry_preconditions by auto
  from createCommitWithRetry_not_retried [OF assms(1,2) this]
  have eq: "createCommitWithRetry g message maxRetries delayMs m = createCommit g message m" .
  moreover have "createCommit g message m = (Inl e, snd (createCommit g message m))"
    using assms(2) by (simp add: prod_eq_iff)
  ultimately show ?thesis
    by (simp add: createCommit_frame)
qed

theorem createCommitWithRetry_precondition_error_not_retried_witness:
  "createCommitWithRetry unchangedGit ''daily'' 3 5000 startMachine
     = (Inl (GitOperationError ''No changes to commit'' None), snd (createCommit unchangedGit ''daily'' startMachine))
   \<and> createCommitCalls (snd (createCommitWithRetry unchangedGit ''daily'' 3 5000 startMachine)) = 1
   \<and> awaitedTimeouts (snd (createCommitWithRetry unchangedGit ''daily'' 3 5000 startMachine)) = []"
proof -
  have h: "fst (createCommit unchangedGit ''daily'' startMachine) = Inl (GitOperationError ''No changes to commit'' None)"
    by (rule unchangedGit_createCommit)
  have z: "createCommitCalls startMachine = 0" "awaitedTimeouts startMachine = []"
    by (simp_all add: startMachine_def awaitedTimeouts_def)
  have p: "(1::int) \<le> 3" by simp
  have d: "GitOperationError ''No changes to commit'' None = GitOperationError ''No changes to commit'' None
         \<or> GitOperationError ''No changes to commit'' None = GitOperationError ''Commit message cannot be empty'' None
         \<or> GitOperationError ''No changes to commit'' None
             = GitOperationError ''Repository is not in a clean state for auto-commit'' None"
    by simp
  note t = createCommitWithRetry_precondition_error_not_retried [OF p h d, of 5000]
  note c1 = t [THEN conjunct1]
  have c2: "createCommitCalls (snd (createCommitWithRetry unchangedGit ''daily'' 3 5000 startMachine)) = 1"
    using t [THEN conjunct2, THEN conjunct1] z by simp
  have c3: "awaitedTimeouts (snd (createCommitWithRetry unchangedGit ''daily'' 3 5000 startMachine)) = []"
    using t [THEN conjunct2, THEN conjunct2] z by simp
  from c1 c2 c3 show ?thesis by blast
qed

lemma showInt_1: "showInt 1 = ''1''"
  by code_simp

text \<open>
  Claim C3. Let the first call of \<^verbatim>\<open>createCommit\<close> throw an error that the test of the
  wrapper lets through (its lower-cased message contains none of \<open>no changes\<close>, \<open>empty\<close>,
  \<open>not in a clean state\<close>). When more than one attempt is allowed, the \<^verbatim>\<open>catch\<close> block
  calls \<^verbatim>\<open>defaultLogger.warn\<close> before it awaits the delay; the logger has no such method,
  so the \<^verbatim>\<open>TypeError\<close> of that call leaves \<^verbatim>\<open>createCommitWithRetry\<close>:
  \<^verbatim>\<open>createCommit\<close> was called once, no delay was awaited, and the error thrown is not the
  error of the exhausted attempts. Only when a single attempt is allowed, where no retry is
  due, does the wrapper end with the error that names the number of attempts and wraps the
  error of the call.
\<close>

theorem createCommitWithRetry_first_failure_ends_retries:
  assumes "fst (createCommit g message m) = Inl e"
    and "\<not> dontRetry e"
  shows "(2 \<le> maxRetries \<longrightarrow>
            createCommitWithRetry g message maxRetries delayMs m
              = (Inl (TypeError ''defaultLogger.warn is not a function''), snd (createCommit g message m))
            \<and> createCommitCalls (snd (createCommitWithRetry g message maxRetries delayMs m)) = createCommitCalls m + 1
            \<and> awaitedTimeouts (snd (createCommitWithRetry g message maxRetries delayMs m)) = awaitedTimeouts m)
       \<and> (maxRetries = 1 \<longrightarrow>
            createCommitWithRetry g message maxRetries delayMs m
              = (Inl (GitOperationError (''Failed to create commit after 1 attempts: '' @ errorMessage e) (Some e)),
                 snd (createCommit g message m))
            \<and> createCommitCalls (snd (createCommitWithRetry g message maxRetries delayMs m)) = createCommitCalls m + 1
            \<and> awaitedTimeouts (snd (createCommitWithRetry g message maxRetries delayMs m)) = awaitedTimeouts m)"
proof (intro conjI impI)
  assume two: "2 \<le> maxRetries"
  note w = createCommitWithRetry_warn_throws [OF two assms, of delayMs]
  show "createCommitWithRetry g message maxRetries delayMs m
          = (Inl (TypeError ''defaultLogger.warn is not a function''), snd (createCommit g message m))"
    by (rule w)
  show "createCommitCalls (snd (createCommitWithRetry g message maxRetries delayMs m)) = createCommitCalls m + 1"
    by (simp add: w createCommit_frame)
  show "awaitedTimeouts (snd (createCommitWithRetry g message maxRetries delayMs m)) = awaitedTimeouts m"
    by (simp add: w createCommit_frame)
next
  assume one: "maxRetries = 1"
  note s = createCommitWithRetry_single_attempt [OF assms, of delayMs, unfolded showInt_1]
  show "createCommitWithRetry g message maxRetries delayMs m
          = (Inl (GitOperationError (''Failed to create commit after 1 attempts: '' @ errorMessage e) (Some e)),
             snd (createCommit g message m))"
    unfolding one using s by simp
  show "createCommitCalls (snd (createCommitWithRetry g message maxRetries delayMs m)) = createCommitCalls m + 1"
    unfolding one by (simp add: s createCommit_frame)
  show "awaitedTimeouts (snd (createCommitWithRetry g message maxRetries delayMs m)) = awaitedTimeouts m"
    unfolding one by (simp add: s createCommit_frame)
qed

theorem createCommitWithRetry_first_failure_ends_retries_witness:
  "fst (createCommit lockedGit ''daily'' startMachine) = Inl lockedError
   \<and> \<not> dontRetry lockedError
   \<and> fst (createCommitWithRetry lockedGit ''daily'' 3 5000 startMachine)
       = Inl (TypeError ''defaultLogger.warn is not a function'')
   \<and> createCommitCalls (snd (createCommitWithRetry lockedGit ''daily'' 3 5000 startMachine)) = 1
   \<and> awaitedTimeouts (snd (createCommitWithRetry lockedGit ''daily'' 3 5000 startMachine)) = []
   \<and> fst (createCommitWithRetry lockedGit ''daily'' 1 5000 startMachine)
       = Inl (GitOperationError (''Failed to create commit after 1 attempts: '' @ errorMessage lockedError) (Some lockedError))
   \<and> createCommitCalls (snd (createCommitWithRetry lockedGit ''daily'' 1 5000 startMachine)) = 1
   \<and> awaitedTimeouts (snd (createCommitWithRetry lockedGit ''daily'' 1 5000 startMachine)) = []"
proof -
  have h: "fst (createCommit lockedGit ''daily'' startMachine) = Inl lockedError"
    by (rule lockedGit_createCommit)
  have d: "\<not> dontRetry lockedError"
    by (rule lockedError_retried)
  have z: "createCommitCalls startMachine = 0" "awaitedTimeouts startMachine = []"
    by (simp_all add: startMachine_def awaitedTimeouts_def)
  have p: "(2::int) \<le> 3" by simp
  note t3 = createCommitWithRetry_first_failure_ends_retries [OF h d, of 3 5000, THEN conjunct1, rule_format, OF p]
  note t1 = createCommitWithRetry_first_failure_ends_retries [OF h d, of 1 5000, THEN conjunct2, rule_format, OF refl]
  have a1: "fst (createCommitWithRetry lockedGit ''daily'' 3 5000 startMachine)
       = Inl (TypeError ''defaultLogger.warn is not a function'')"
    using t3 [THEN conjunct1] by simp
  have a2: "createCommitCalls (snd (createCommitWithRetry lockedGit ''daily'' 3 5000 startMachine)) = 1"
    using t3 [THEN conjunct2, THEN conjunct1] z by simp
  have a3: "awaitedTimeouts (snd (createCommitWithRetry lockedGit ''daily'' 3 5000 startMachine)) = []"
    using t3 [THEN conjunct2, THEN conjunct2] z by simp
  have b1: "fst (createCommitWithRetry lockedGit ''daily'' 1 5000 startMachine)
       = Inl (GitOperationError (''Failed to create commit after 1 attempts: '' @ errorMessage lockedError) (Some lockedError))"
    using t1 [THEN conjunct1] by simp
  have b2: "createCommitCalls (snd (createCommitWithRetry lockedGit ''daily'' 1 5000 startMachine)) = 1"
    using t1 [THEN conjunct2, THEN conjunct1] z by simp
  have b3: "awaitedTimeouts (snd (createCommitWithRetry lockedGit ''daily'' 1 5000 startMachine)) = []"
    using t1 [THEN conjunct2, THEN conjunct2] z by simp
  from h d a1 a2 a3 b1 b2 b3 show ?thesis by blast
qed
section \<open>Changing the configuration\<close>

lemma commitTimeChanged_after_assignment:
  "\<not> commitTimeChanged newConfig (svc\<lparr>config := Some (mergeConfig cfg newConfig)\<rparr>)"
  by (simp add: commitTimeChanged_def mergeConfig_def split: option.splits)

lemma commitTimeChanged_merged:
  "config s = Some (mergeConfig cfg newConfig) \<Longrightarrow> commitTimeChanged newConfig s = False"
  by (simp add: commitTimeChanged_def mergeConfig_def split: option.splits)

lemma commitTimeChanged_repositoryPath:
  "commitTimeChanged newConfig (svc\<lparr>gitManager := g\<rparr>) = commitTimeChanged newConfig svc"
  by (simp add: commitTimeChanged_def)

lemma updateConfigBody_not_running:
  assumes "\<not> isServiceRunning svc"
  shows "scheduler (snd (updateConfigBody newConfig svc)) = scheduler svc"
  using assms
  by (auto simp: updateConfigBody_def Let_def commitTimeChanged_after_assignment commitTimeChanged_repositoryPath
      split: option.splits)

lemma updateConfig_scheduler:
  "scheduler (snd (updateConfig newConfig svc)) = scheduler (snd (updateConfigBody newConfig svc))"
  by (simp add: updateConfig_def split: prod.splits sum.splits)

lemma stop_keeps:
  "cronValidate (stop s) = cronValidate s" "callback (stop s) = callback s" "cronExpression (stop s) = cronExpression s"
  "task (stop s) = None"
  by (simp_all add: stop_def saveState_def logMessage_def Let_def)

lemma schedule_valid:
  assumes "cronValidate s expr"
  shows "fst (schedule expr cb s) = Inr ()"
    and "cronExpression (snd (schedule expr cb s)) = expr"
    and "callback (snd (schedule expr cb s)) = Some cb"
    and "task (snd (schedule expr cb s)) = Some expr"
    and "\<not> isActive (state (snd (schedule expr cb s)))"
  using assms by (simp_all add: schedule_def Let_def logMessage_def calculateNextRun_keeps)

lemma start_after_schedule:
  assumes "task s \<noteq> None" "\<not> isActive (state s)"
  shows "fst (start s) = Inr ()"
    and "cronExpression (snd (start s)) = cronExpression s"
    and "callback (snd (start s)) = callback s"
    and "isRunning (snd (start s))"
  using assms
  by (simp_all add: start_def isRunning_def Let_def logMessage_def calculateNextRun_keeps saveState_keeps)

lemma serviceStart_fresh:
  assumes "isInitialized svc" "config svc = Some cfg" "enabled cfg" "\<not> isServiceRunning svc"
    and "cronValidate (scheduler svc) (commitTime cfg)"
  shows "fst (serviceStart svc) = Inr ()"
    and "cronExpression (scheduler (snd (serviceStart svc))) = commitTime cfg"
    and "isServiceRunning (snd (serviceStart svc))"
    and "isRunning (scheduler (snd (serviceStart svc)))"
proof -
  note sc = schedule_valid [OF assms(5), of Returns]
  have t: "task (snd (schedule (commitTime cfg) Returns (scheduler svc))) \<noteq> None"
    using sc(4) by simp
  note st = start_after_schedule [OF t sc(5)]
  have body: "serviceStartBody svc
      = (Inr (), svc\<lparr>scheduler := snd (start (snd (schedule (commitTime cfg) Returns (scheduler svc)))),
                       isServiceRunning := True\<rparr>)"
    using assms(1-4) sc(1) st(1) by (simp add: serviceStartBody_def case_prod_unfold)
  show "fst (serviceStart svc) = Inr ()"
    by (simp add: serviceStart_def body)
  show "cronExpression (scheduler (snd (serviceStart svc))) = commitTime cfg"
    by (simp add: serviceStart_def body st(2) sc(2))
  show "isServiceRunning (snd (serviceStart svc))"
    by (simp add: serviceStart_def body)
  show "isRunning (scheduler (snd (serviceStart svc)))"
    by (simp add: serviceStart_def body st(4))
qed

lemma updateConfig_running:
  assumes "isServiceRunning svc" "isInitialized svc" "config svc = Some cfg"
    and "validateConfig (mergeConfig cfg newConfig)" "configWriteError svc = None"
    and "enabled (mergeConfig cfg newConfig)"
    and "cronValidate (scheduler svc) (commitTime (mergeConfig cfg newConfig))"
  shows "fst (updateConfig newConfig svc) = Inr ()"
    and "cronExpression (scheduler (snd (updateConfig newConfig svc))) = commitTime (mergeConfig cfg newConfig)"
    and "isServiceRunning (snd (updateConfig newConfig svc))"
proof -
  let ?u = "mergeConfig cfg newConfig"
  let ?s1 = "svc\<lparr>scheduler := stop (scheduler svc), isServiceRunning := False\<rparr>"
  let ?s2 = "?s1\<lparr>config := Some ?u\<rparr>"
  let ?s3 = "(case newRepositoryPath newConfig of
               Some p \<Rightarrow> if p \<noteq> [] then ?s2\<lparr>gitManager := (gitManager ?s2)\<lparr>repositoryPath := p\<rparr>\<rparr> else ?s2
             | None \<Rightarrow> ?s2)"
  have s3: "isInitialized ?s3" "config ?s3 = Some ?u" "\<not> isServiceRunning ?s3"
      "cronValidate (scheduler ?s3) (commitTime ?u)"
    using assms(2,7) by (simp_all add: stop_keeps split: option.splits)
  have nc: "\<not> commitTimeChanged newConfig ?s3"
    by (simp add: commitTimeChanged_def mergeConfig_def split: option.splits)
  have save: "saveConfig svc ?u = None"
    using assms(4,5) by (simp add: saveConfig_def validateConfig_def)
  have body: "updateConfigBody newConfig svc = serviceStart ?s3"
    using assms(1,3,4,6) save
    by (simp add: updateConfigBody_def Let_def serviceStop_def commitTimeChanged_merged split: option.splits)
  note ss = serviceStart_fresh [OF s3(1,2) assms(6) s3(3,4)]
  have r: "updateConfig newConfig svc = (Inr (), snd (serviceStart ?s3))"
    using ss(1) by (simp add: updateConfig_def body case_prod_unfold split: sum.splits)
  show "fst (updateConfig newConfig svc) = Inr ()" by (simp add: r)
  show "cronExpression (scheduler (snd (updateConfig newConfig svc))) = commitTime ?u"
    using ss(2) by (simp add: r)
  show "isServiceRunning (snd (updateConfig newConfig svc))"
    using ss(3) by (simp add: r)
qed

text \<open>
  Claim C10. When the service is not running, \<^verbatim>\<open>updateConfig\<close> leaves the scheduler as it
  was, its cron expression included, whatever the new configuration says. The test that
  guards \<^verbatim>\<open>updateSchedule\<close> is made on the configuration that was just replaced by the
  merged one, so it is false for every new commit time. When the service is running and
  initialised, the merged configuration is valid, enabled and saved, and the cron library
  accepts the new time, the stop and start of the service install that time as the cron
  expression of the scheduler.
\<close>

theorem updateConfig_commit_time_needs_restart:
  "(\<not> isServiceRunning svc \<longrightarrow> scheduler (snd (updateConfig newConfig svc)) = scheduler svc)
   \<and> \<not> commitTimeChanged newConfig (svc\<lparr>config := Some (mergeConfig cfg newConfig)\<rparr>)
   \<and> (isServiceRunning svc \<and> isInitialized svc \<and> config svc = Some cfg
        \<and> validateConfig (mergeConfig cfg newConfig) \<and> configWriteError svc = None
        \<and> enabled (mergeConfig cfg newConfig)
        \<and> cronValidate (scheduler svc) (commitTime (mergeConfig cfg newConfig))
       \<longrightarrow> fst (updateConfig newConfig svc) = Inr ()
           \<and> cronExpression (scheduler (snd (updateConfig newConfig svc))) = commitTime (mergeConfig cfg newConfig)
           \<and> (\<forall>t. newCommitTime newConfig = Some t \<longrightarrow> cronExpression (scheduler (snd (updateConfig newConfig svc))) = t))"
proof (intro conjI impI)
  assume "\<not> isServiceRunning svc"
  then show "scheduler (snd (updateConfig newConfig svc)) = scheduler svc"
    by (simp add: updateConfig_scheduler updateConfigBody_not_running)
next
  show "\<not> commitTimeChanged newConfig (svc\<lparr>config := Some (mergeConfig cfg newConfig)\<rparr>)"
    by (rule commitTimeChanged_after_assignment)
next
  assume a: "isServiceRunning svc \<and> isInitialized svc \<and> config svc = Some cfg
        \<and> validateConfig (mergeConfig cfg newConfig) \<and> configWriteError svc = None
        \<and> enabled (mergeConfig cfg newConfig)
        \<and> cronValidate (scheduler svc) (commitTime (mergeConfig cfg newConfig))"
  then have r: "isServiceRunning svc" "isInitialized svc" "config svc = Some cfg"
    "validateConfig (mergeConfig cfg newConfig)" "configWriteError svc = None"
    "enabled (mergeConfig cfg newConfig)"
    "cronValidate (scheduler svc) (commitTime (mergeConfig cfg newConfig))"
    by simp_all
  note u = updateConfig_running [OF r]
  show "fst (updateConfig newConfig svc) = Inr ()" by (rule u(1))
  show "cronExpression (scheduler (snd (updateConfig newConfig svc))) = commitTime (mergeConfig cfg newConfig)"
    by (rule u(2))
  show "\<forall>t. newCommitTime newConfig = Some t \<longrightarrow> cronExpression (scheduler (snd (updateConfig newConfig svc))) = t"
    using u(2) by (simp add: mergeConfig_def)
qed

lemma nineOClock_valid: "validateConfig (mergeConfig exampleConfig nineOClock)"
  by code_simp

lemma nineOClock_cron: "cronPatternTest ''0 9 * * *''"
  by code_simp

theorem updateConfig_commit_time_needs_restart_witness:
  "cronExpression (scheduler (snd (updateConfig nineOClock (idleService unchangedGit)))) = []
   \<and> fst (updateConfig nineOClock (runningService unchangedGit)) = Inr ()
   \<and> cronExpression (scheduler (snd (updateConfig nineOClock (runningService unchangedGit)))) = ''0 9 * * *''"
proof -
  note t1 = updateConfig_commit_time_needs_restart [of "idleService unchangedGit" nineOClock exampleConfig]
  note t2 = updateConfig_commit_time_needs_restart [of "runningService unchangedGit" nineOClock exampleConfig]
  have i: "\<not> isServiceRunning (idleService unchangedGit)" "cronExpression (scheduler (idleService unchangedGit)) = []"
    by (simp_all add: idleService_def newScheduler_def)
  have c1: "cronExpression (scheduler (snd (updateConfig nineOClock (idleService unchangedGit)))) = []"
    using t1 [THEN conjunct1] i by simp
  have m: "commitTime (mergeConfig exampleConfig nineOClock) = ''0 9 * * *''"
    "enabled (mergeConfig exampleConfig nineOClock)"
    by (simp_all add: mergeConfig_def nineOClock_def exampleConfig_def)
  have h: "isServiceRunning (runningService unchangedGit) \<and> isInitialized (runningService unchangedGit)
        \<and> config (runningService unchangedGit) = Some exampleConfig
        \<and> validateConfig (mergeConfig exampleConfig nineOClock) \<and> configWriteError (runningService unchangedGit) = None
        \<and> enabled (mergeConfig exampleConfig nineOClock)
        \<and> cronValidate (scheduler (runningService unchangedGit)) (commitTime (mergeConfig exampleConfig nineOClock))"
    by (simp add: runningService_def idleService_def newScheduler_def nineOClock_valid m nineOClock_cron)
  from t2 [THEN conjunct2, THEN conjunct2, rule_format, OF h]
  have c2: "fst (updateConfig nineOClock (runningService unchangedGit)) = Inr ()"
    and c3: "cronExpression (scheduler (snd (updateConfig nineOClock (runningService unchangedGit)))) = ''0 9 * * *''"
    by (simp_all add: m)
  from c1 c2 c3 show ?thesis by blast
qed
section \<open>Executing a commit\<close>

lemma onlyQueries_refl [simp]: "onlyQueries m m"
  by (auto simp: onlyQueries_def)

lemma onlyQueries_exec:
  "''git '' @ c \<in> set queryCommands \<Longrightarrow>
     onlyQueries m (snd (executeGitCommand g c m1)) = onlyQueries m m1"
  by (auto simp: onlyQueries_def executeGitCommand_def executedCommands_def Let_def split: sum.splits)

lemma onlyQueries_execs [simp]:
  "onlyQueries m (snd (executeGitCommand g ''status --porcelain'' m1)) = onlyQueries m m1"
  "onlyQueries m (snd (executeGitCommand g ''rev-parse --git-dir'' m1)) = onlyQueries m m1"
  "onlyQueries m (snd (executeGitCommand g ''diff --check'' m1)) = onlyQueries m m1"
  "onlyQueries m (snd (executeGitCommand g ''symbolic-ref -q HEAD'' m1)) = onlyQueries m m1"
  "onlyQueries m (snd (executeGitCommand g ''branch --show-current'' m1)) = onlyQueries m m1"
  "onlyQueries m (snd (executeGitCommand g ''rev-parse --abbrev-ref HEAD'' m1)) = onlyQueries m m1"
  "onlyQueries m (snd (executeGitCommand g ''rev-parse HEAD'' m1)) = onlyQueries m m1"
  by (rule onlyQueries_exec, simp add: queryCommands_def)+

lemma onlyQueries_access [simp]:
  "onlyQueries m (snd (access g p m1)) = onlyQueries m m1"
  by (auto simp: onlyQueries_def access_def executedCommands_def)

lemma onlyQueries_hasChanges [simp]:
  "onlyQueries m (snd (hasChanges g m1)) = onlyQueries m m1"
  by (simp add: hasChanges_def case_prod_unfold split: sum.splits)

lemma onlyQueries_getGitDirectory [simp]:
  "onlyQueries m (snd (getGitDirectory g m1)) = onlyQueries m m1"
  by (simp add: getGitDirectory_def case_prod_unfold Let_def split: sum.splits)

lemma onlyQueries_getLatestCommitHash [simp]:
  "onlyQueries m (snd (getLatestCommitHash g m1)) = onlyQueries m m1"
  by (simp add: getLatestCommitHash_def case_prod_unfold split: sum.splits)

lemma onlyQueries_getCurrentBranch [simp]:
  "onlyQueries m (snd (getCurrentBranch g m1)) = onlyQueries m m1"
  by (simp add: getCurrentBranch_def case_prod_unfold split: sum.splits)

lemma onlyQueries_isGitRepository [simp]:
  "onlyQueries m (snd (isGitRepository g m1)) = onlyQueries m m1"
  by (simp add: isGitRepository_def case_prod_unfold split: sum.splits)

lemma onlyQueries_getRepositoryStateBody [simp]:
  "onlyQueries m (snd (getRepositoryStateBody g m1)) = onlyQueries m m1"
  by (simp add: getRepositoryStateBody_def case_prod_unfold Let_def split: sum.splits)

lemma onlyQueries_getRepositoryState [simp]:
  "onlyQueries m (snd (getRepositoryState g m1)) = onlyQueries m m1"
  by (simp add: getRepositoryState_def case_prod_unfold split: sum.splits)

lemma onlyQueries_isRepositoryClean [simp]:
  "onlyQueries m (snd (isRepositoryClean g m1)) = onlyQueries m m1"
  by (simp add: isRepositoryClean_def case_prod_unfold Let_def)

lemma onlyQueries_getRepositoryInfo [simp]:
  "onlyQueries m (snd (getRepositoryInfo g m1)) = onlyQueries m m1"
  by (simp add: getRepositoryInfo_def case_prod_unfold Let_def split: sum.splits)

lemma getRepositoryState_merging:
  assumes repo: "\<forall>n. execAsync g ''git rev-parse --git-dir'' n = Inr (out, err)"
    and noConflict: "\<forall>m e. fst (executeGitCommand g ''diff --check'' m) = Inl e \<longrightarrow> \<not> strIncludes (errorMessage e) ''conflict''"
    and marker: "\<forall>n. fsAccess g
           (pathJoin g (if \<not> pathIsAbsolute g (trim out) then pathResolve g (repositoryPath g) (trim out) else trim out)
              ''MERGE_HEAD'') n"
  shows "fst (getRepositoryState g m) = Merging"
proof -
  have r: "\<And>m. fst (executeGitCommand g ''rev-parse --git-dir'' m) = Inr (out, err)"
    using repo by (simp add: executeGitCommand_def Let_def)
  have d: "\<And>m. fst (getGitDirectory g m)
      = Inr (if \<not> pathIsAbsolute g (trim out) then pathResolve g (repositoryPath g) (trim out) else trim out)"
    using r by (simp add: getGitDirectory_def case_prod_unfold Let_def)
  have a: "\<And>m. fst (access g (pathJoin g (if \<not> pathIsAbsolute g (trim out) then pathResolve g (repositoryPath g) (trim out) else trim out)
              ''MERGE_HEAD'') m)"
    using marker by (simp add: access_def)
  have "fst (getRepositoryStateBody g m) = Inr Merging"
    using noConflict
    by (auto simp: getRepositoryStateBody_def case_prod_unfold Let_def r d a split: sum.splits)
  then show ?thesis
    by (simp add: getRepositoryState_def case_prod_unfold split: sum.splits)
qed

lemma not_includes_merging:
  "\<not> strIncludes ''Commit execution failed'' ''merging''"
  "\<not> strIncludes ''this.logger.warn is not a function'' ''merging''"
  by code_simp+

lemma getRepositoryInfo_state:
  assumes "\<forall>n. execAsync g ''git rev-parse --git-dir'' n = Inr (out, err)"
    and "\<And>m. fst (getRepositoryState g m) = st"
  shows "infoState (fst (getRepositoryInfo g m)) = st"
proof -
  have "\<And>m. fst (isGitRepository g m)"
    using assms(1) by (simp add: isGitRepository_def executeGitCommand_def Let_def)
  then show ?thesis
    using assms(2) by (simp add: getRepositoryInfo_def case_prod_unfold Let_def)
qed

lemma hasChanges_true:
  assumes "\<forall>n. \<exists>out err. execAsync g ''git status --porcelain'' n = Inr (out, err) \<and> trim out \<noteq> []"
  shows "fst (hasChanges g m) = Inr True"
proof -
  from assms obtain out err where "execAsync g ''git status --porcelain'' (length (effects m)) = Inr (out, err)" "trim out \<noteq> []"
    by blast
  then show ?thesis
    by (simp add: hasChanges_def executeGitCommand_def Let_def)
qed

lemma executeCommitBody_unsafe:
  assumes cfg: "config svc = Some cfg"
    and changes: "fst (hasChanges (gitManager svc) m) = Inr True"
    and unsafe: "\<not> fst (isRepositoryClean (gitManager svc) (snd (hasChanges (gitManager svc) m)))"
  shows "executeCommitBody svc startTime m =
     (Inl (TypeError ''this.logger.warn is not a function''), svc,
      snd (getRepositoryInfo (gitManager svc)
             (snd (isRepositoryClean (gitManager svc) (snd (hasChanges (gitManager svc) m))))))"
  using assms by (simp add: executeCommitBody_def warn_def case_prod_unfold Let_def)

lemma executeCommit_unsafe:
  assumes cfg: "config svc = Some cfg"
    and changes: "fst (hasChanges (gitManager svc) m) = Inr True"
    and unsafe: "\<not> fst (isRepositoryClean (gitManager svc) (snd (hasChanges (gitManager svc) m)))"
  shows "executeCommit svc startTime m =
     (Inr \<lparr>success = False, commitHash = None, resultMessage = ''Commit execution failed'', timestamp = startTime,
            filesChanged = 0, resultError = Some ''this.logger.warn is not a function''\<rparr>,
      svc\<lparr>lastError := Some ''this.logger.warn is not a function''\<rparr>,
      snd (getRepositoryInfo (gitManager svc)
             (snd (isRepositoryClean (gitManager svc) (snd (hasChanges (gitManager svc) m))))))"
  by (simp add: executeCommit_def executeCommitBody_unsafe [OF assms])

text \<open>
  Claim C8. Let the directory be a repository whose metadata directory resolves, let the
  conflict check report no conflict, and let the marker \<open>MERGE_HEAD\<close> exist in the
  metadata directory, all of this for the whole run. Then the classification answers
  merging and the safety predicate is false. If moreover the working tree has changes and the
  configuration is loaded, \<^verbatim>\<open>executeCommit\<close> never calls \<^verbatim>\<open>createCommit\<close> and runs
  read-only commands only, and it returns a failure. But the failure is not the one that
  names the state: the message that holds \<open>merging\<close> is built and handed to
  \<^verbatim>\<open>this.logger.warn\<close>, a method the logger does not have, so the \<^verbatim>\<open>TypeError\<close> of that
  call reaches the outer \<^verbatim>\<open>catch\<close>. The result is \<open>Commit execution failed\<close> with the text
  of the \<^verbatim>\<open>TypeError\<close>, which is also the last error; neither text contains \<open>merging\<close>.
\<close>

theorem executeCommit_while_merging_reports_missing_warn:
  assumes repo: "\<forall>n. execAsync g ''git rev-parse --git-dir'' n = Inr (out, err)"
    and noConflict: "\<forall>m e. fst (executeGitCommand g ''diff --check'' m) = Inl e \<longrightarrow> \<not> strIncludes (errorMessage e) ''conflict''"
    and marker: "\<forall>n. fsAccess g
           (pathJoin g (if \<not> pathIsAbsolute g (trim out) then pathResolve g (repositoryPath g) (trim out) else trim out)
              ''MERGE_HEAD'') n"
    and changes: "\<forall>n. \<exists>status err. execAsync g ''git status --porcelain'' n = Inr (status, err) \<and> trim status \<noteq> []"
    and svc: "gitManager svc = g" "config svc = Some cfg"
  shows "fst (getRepositoryState g m) = Merging
       \<and> \<not> fst (isRepositoryClean g m)
       \<and> fst (executeCommit svc startTime m)
           = Inr \<lparr>success = False, commitHash = None, resultMessage = ''Commit execution failed'',
                  timestamp = startTime, filesChanged = 0,
                  resultError = Some ''this.logger.warn is not a function''\<rparr>
       \<and> lastError (fst (snd (executeCommit svc startTime m))) = Some ''this.logger.warn is not a function''
       \<and> \<not> strIncludes ''Commit execution failed'' ''merging''
       \<and> \<not> strIncludes ''this.logger.warn is not a function'' ''merging''
       \<and> createCommitCalls (snd (snd (executeCommit svc startTime m))) = createCommitCalls m
       \<and> set (executedCommands (snd (snd (executeCommit svc startTime m))))
            \<subseteq> set (executedCommands m) \<union> set queryCommands"
proof -
  have st: "\<And>m. fst (getRepositoryState g m) = Merging"
    by (rule getRepositoryState_merging [OF repo noConflict marker])
  then have nc: "\<And>m. \<not> fst (isRepositoryClean g m)"
    by (simp add: isRepositoryClean_def case_prod_unfold Let_def)
  have hc: "fst (hasChanges (gitManager svc) m) = Inr True"
    using hasChanges_true [OF changes] svc(1) by simp
  have un: "\<not> fst (isRepositoryClean (gitManager svc) (snd (hasChanges (gitManager svc) m)))"
    using nc svc(1) by simp
  note ex = executeCommit_unsafe [OF svc(2) hc un, of startTime]
  have q: "onlyQueries m (snd (snd (executeCommit svc startTime m)))"
    by (simp add: ex)
  have r: "fst (executeCommit svc startTime m)
           = Inr \<lparr>success = False, commitHash = None, resultMessage = ''Commit execution failed'',
                  timestamp = startTime, filesChanged = 0,
                  resultError = Some ''this.logger.warn is not a function''\<rparr>"
    by (simp add: ex)
  have l: "lastError (fst (snd (executeCommit svc startTime m))) = Some ''this.logger.warn is not a function''"
    by (simp add: ex)
  from q have c: "createCommitCalls (snd (snd (executeCommit svc startTime m))) = createCommitCalls m"
    and e: "set (executedCommands (snd (snd (executeCommit svc startTime m))))
            \<subseteq> set (executedCommands m) \<union> set queryCommands"
    by (simp_all add: onlyQueries_def)
  from st [of m] nc [of m] r l not_includes_merging c e show ?thesis
    by blast
qed


lemma mergingGit_facts:
  "\<forall>n. execAsync mergingGit ''git rev-parse --git-dir'' n = Inr (gitDirOutput, [])"
  "\<forall>m e. fst (executeGitCommand mergingGit ''diff --check'' m) = Inl e \<longrightarrow> \<not> strIncludes (errorMessage e) ''conflict''"
  "\<forall>n. fsAccess mergingGit
           (pathJoin mergingGit
              (if \<not> pathIsAbsolute mergingGit (trim gitDirOutput)
               then pathResolve mergingGit (repositoryPath mergingGit) (trim gitDirOutput) else trim gitDirOutput)
              ''MERGE_HEAD'') n"
  "\<forall>n. \<exists>status err. execAsync mergingGit ''git status --porcelain'' n = Inr (status, err) \<and> trim status \<noteq> []"
  by (simp_all add: mergingGit_def gitWith_def repoAnswers_def executeGitCommand_def Let_def trim_examples)

theorem executeCommit_while_merging_reports_missing_warn_witness:
  "fst (getRepositoryState mergingGit startMachine) = Merging
   \<and> \<not> fst (isRepositoryClean mergingGit startMachine)
   \<and> fst (executeCommit (idleService mergingGit) (Time 1735894800000) startMachine)
       = Inr \<lparr>success = False, commitHash = None, resultMessage = ''Commit execution failed'',
              timestamp = Time 1735894800000, filesChanged = 0,
              resultError = Some ''this.logger.warn is not a function''\<rparr>
   \<and> lastError (fst (snd (executeCommit (idleService mergingGit) (Time 1735894800000) startMachine)))
       = Some ''this.logger.warn is not a function''
   \<and> createCommitCalls (snd (snd (executeCommit (idleService mergingGit) (Time 1735894800000) startMachine))) = 0"
proof -
  have s: "gitManager (idleService mergingGit) = mergingGit" "config (idleService mergingGit) = Some exampleConfig"
    by (simp_all add: idleService_def)
  note t = executeCommit_while_merging_reports_missing_warn [OF mergingGit_facts s, of startMachine "Time 1735894800000"]
  have z: "createCommitCalls startMachine = 0"
    by (simp add: startMachine_def)
  have c7: "createCommitCalls (snd (snd (executeCommit (idleService mergingGit) (Time 1735894800000) startMachine))) = 0"
    using t [THEN conjunct2, THEN conjunct2, THEN conjunct2, THEN conjunct2, THEN conjunct2, THEN conjunct2, THEN conjunct1] z
    by simp
  from t [THEN conjunct1] t [THEN conjunct2, THEN conjunct1] t [THEN conjunct2, THEN conjunct2, THEN conjunct1]
    t [THEN conjunct2, THEN conjunct2, THEN conjunct2, THEN conjunct1] c7
  show ?thesis by blast
qed


















end
